theory Spec2Isabelle
  imports Main "HOL-Library.AList" "HOL-Library.Char_ord" "HOL-Library.List_Lexorder" "HOL-Library.Word"
begin

section \<open>JavaScript values and \<open>JSON.stringify\<close>\<close>

text \<open>
  The scene builder derives every cache key with \<open>JSON.stringify\<close>
  (GLTFLoader-v2/index.ts, lines 502, 552, 571 and 652). Descriptors are plain value data:
  \<open>undefined\<close>, \<open>null\<close>, booleans, numbers, strings, arrays and objects. An object is
  the list of its own properties in the order \<open>Object.keys\<close> reports them, which for
  the non-index keys used here is insertion order. The numbers of the descriptors are
  integers (counts, indices, offsets, strides, enum codes), so \<open>JNum\<close> carries an integer;
  the number \<open>NaN\<close>, which \<open>JSON.stringify\<close> writes as \<open>null\<close>, is \<open>JNull\<close>.
\<close>

datatype json =
    JUndefined
  | JNull
  | JBool bool
  | JNum int
  | JStr string
  | JArr "json list"
  | JObj "(string \<times> json) list"

datatype js_error = TypeError | RangeError | Error string

function nat_digits :: "nat \<Rightarrow> string" where
  "nat_digits n =
     (if n < 10 then [''0123456789'' ! n]
      else nat_digits (n div 10) @ [''0123456789'' ! (n mod 10)])"
  by pat_completeness auto
termination
  by (relation "measure id") auto

declare nat_digits.simps [simp del]

text \<open>
  \<open>Number::toString\<close> on an integer: all digits up to 21 of them, and beyond that the
  significant digits with a decimal point after the first and the exponent.
\<close>

definition Number_toString :: "int \<Rightarrow> string" where
  "Number_toString i =
     (let ds = nat_digits (nat \<bar>i\<bar>);
          s = rev (dropWhile (\<lambda>c. c = CHR ''0'') (rev ds));
          body = (if length ds \<le> 21 then ds
                  else (case s of
                          [] \<Rightarrow> ds
                        | [d] \<Rightarrow> [d]
                        | d # rest \<Rightarrow> d # CHR ''.'' # rest)
                       @ ''e+'' @ nat_digits (length ds - 1))
      in if i < 0 then CHR ''-'' # body else body)"

definition hex4 :: "nat \<Rightarrow> string" where
  "hex4 n = ''00'' @ [''0123456789abcdef'' ! (n div 16), ''0123456789abcdef'' ! (n mod 16)]"

definition quote_char :: "char \<Rightarrow> string" where
  "quote_char c =
     (if c = CHR 0x08 then [CHR 0x5C, CHR ''b'']
      else if c = CHR 0x09 then [CHR 0x5C, CHR ''t'']
      else if c = CHR 0x0A then [CHR 0x5C, CHR ''n'']
      else if c = CHR 0x0C then [CHR 0x5C, CHR ''f'']
      else if c = CHR 0x0D then [CHR 0x5C, CHR ''r'']
      else if c = CHR 0x22 then [CHR 0x5C, CHR 0x22]
      else if c = CHR 0x5C then [CHR 0x5C, CHR 0x5C]
      else if (of_char c :: nat) < 32 then [CHR 0x5C, CHR ''u''] @ hex4 (of_char c)
      else [c])"

definition QuoteJSONString :: "string \<Rightarrow> string" where
  "QuoteJSONString s = [CHR 0x22] @ concat (map quote_char s) @ [CHR 0x22]"

fun join_comma :: "string list \<Rightarrow> string" where
  "join_comma [] = []"
| "join_comma [s] = s"
| "join_comma (s # t # ss) = s @ '','' @ join_comma (t # ss)"

text \<open>
  \<open>SerializeJSONProperty\<close> of ECMAScript: \<open>None\<close> is the result \<open>undefined\<close>. An
  object property whose value serialises to \<open>undefined\<close> is left out; an array element
  that does so is written \<open>null\<close>.
\<close>

fun SerializeJSONProperty :: "json \<Rightarrow> string option" where
  "SerializeJSONProperty JUndefined = None"
| "SerializeJSONProperty JNull = Some ''null''"
| "SerializeJSONProperty (JBool b) = Some (if b then ''true'' else ''false'')"
| "SerializeJSONProperty (JNum i) = Some (Number_toString i)"
| "SerializeJSONProperty (JStr s) = Some (QuoteJSONString s)"
| "SerializeJSONProperty (JArr xs) =
     Some (''['' @ join_comma (map (\<lambda>x. case SerializeJSONProperty x of
                                            None \<Rightarrow> ''null'' | Some s \<Rightarrow> s) xs) @ '']'')"
| "SerializeJSONProperty (JObj fs) =
     Some (''{'' @ join_comma (concat (map (\<lambda>kv. case SerializeJSONProperty (snd kv) of
                                            None \<Rightarrow> []
                                          | Some s \<Rightarrow> [QuoteJSONString (fst kv) @ '':'' @ s]) fs))
           @ ''}'')"

definition JSON_stringify :: "json \<Rightarrow> string option" where
  "JSON_stringify v = SerializeJSONProperty v"

text \<open>
  Two readings of "equal descriptors". \<open>drop_undefined\<close> removes the object fields
  that are explicitly \<open>undefined\<close> and keeps the order of the others. \<open>canonical\<close>
  follows the specification's words (section 4.1): it also puts the fields of every object
  in one fixed order, so two descriptors are "structurally equal up to field insertion order"
  when their canonical forms coincide.
\<close>

fun drop_undefined :: "json \<Rightarrow> json" where
  "drop_undefined (JArr xs) = JArr (map drop_undefined xs)"
| "drop_undefined (JObj fs) =
     JObj (map (\<lambda>kv. (fst kv, drop_undefined (snd kv)))
               (filter (\<lambda>kv. snd kv \<noteq> JUndefined) fs))"
| "drop_undefined v = v"

fun canonical :: "json \<Rightarrow> json" where
  "canonical (JArr xs) = JArr (map canonical xs)"
| "canonical (JObj fs) =
     JObj (sort_key fst (map (\<lambda>kv. (fst kv, canonical (snd kv)))
                             (filter (\<lambda>kv. snd kv \<noteq> JUndefined) fs)))"
| "canonical v = v"

definition structurally_equal :: "json \<Rightarrow> json \<Rightarrow> bool" where
  "structurally_equal a b \<longleftrightarrow> canonical a = canonical b"

definition get_property :: "string \<Rightarrow> json \<Rightarrow> json" where
  "get_property k v =
     (case v of
        JObj fs \<Rightarrow> (case map_of fs k of Some x \<Rightarrow> x | None \<Rightarrow> JUndefined)
      | _ \<Rightarrow> JUndefined)"

text \<open>
  The operator \<open>k in v\<close> for the two attribute names \<open>buildVertex\<close> asks about: a
  \<open>TypeError\<close> when \<open>v\<close> is not an object, and an array has neither name.
\<close>

definition js_in :: "string \<Rightarrow> json \<Rightarrow> js_error + bool" where
  "js_in k v =
     (case v of
        JObj fs \<Rightarrow> Inr (k \<in> set (map fst fs))
      | JArr xs \<Rightarrow> Inr False
      | _ \<Rightarrow> Inl TypeError)"

text \<open>
  Reading a property \<open>v.k\<close> and destructuring \<open>{k} = v\<close> throw a \<open>TypeError\<close>
  when \<open>v\<close> is \<open>undefined\<close> or \<open>null\<close>; otherwise a missing property reads as
  \<open>undefined\<close>.
\<close>

definition GetV :: "json \<Rightarrow> string \<Rightarrow> js_error + json" where
  "GetV v k = (if v = JUndefined \<or> v = JNull then Inl TypeError else Inr (get_property k v))"

text \<open>A \<open>forEach\<close> whose callback may throw, and a \<open>map\<close> whose callback may throw.\<close>

fun forEachE :: "('a \<Rightarrow> 's \<Rightarrow> js_error + 's) \<Rightarrow> 'a list \<Rightarrow> 's \<Rightarrow> js_error + 's" where
  "forEachE f [] s = Inr s"
| "forEachE f (x # xs) s = (case f x s of Inl e \<Rightarrow> Inl e | Inr s' \<Rightarrow> forEachE f xs s')"

fun mapE :: "('a \<Rightarrow> js_error + 'b) \<Rightarrow> 'a list \<Rightarrow> js_error + 'b list" where
  "mapE f [] = Inr []"
| "mapE f (x # xs) =
     (case f x of
        Inl e \<Rightarrow> Inl e
      | Inr y \<Rightarrow> (case mapE f xs of Inl e \<Rightarrow> Inl e | Inr ys \<Rightarrow> Inr (y # ys)))"

section \<open>Typed arrays\<close>

text \<open>
  A \<open>Float32Array\<close> is the list of its elements, each the 32-bit pattern of the float, so
  that equal lists are byte-identical arrays. \<open>TypedArray.prototype.set(source, offset)\<close>
  throws a \<open>RangeError\<close> when the source does not fit at the offset. A \<open>Mat4\<close> of
  wgpu-matrix is a \<open>Float32Array\<close> of 16 elements.
\<close>

type_synonym float32 = "32 word"

definition Float32Array_new :: "nat \<Rightarrow> float32 list" where
  "Float32Array_new n = replicate n 0"

definition TypedArray_set :: "float32 list \<Rightarrow> float32 list \<Rightarrow> nat \<Rightarrow> js_error + float32 list" where
  "TypedArray_set target source off =
     (if off + length source > length target then Inl RangeError
      else Inr (take off target @ source @ drop (off + length source) target))"

typedef Mat4 = "{xs :: float32 list. length xs = 16}"
  by (rule exI [of _ "replicate 16 0"]) simp

definition Mat4_of_list :: "float32 list \<Rightarrow> Mat4" where
  "Mat4_of_list xs = Abs_Mat4 (if length xs = 16 then xs else replicate 16 0)"

section \<open>The scene graph and the loaded glTF objects\<close>

text \<open>
  \<open>Transform\<close> is not part of the files at hand; the builder reads its \<open>worldMatrix\<close>
  and \<open>worldNormalMatrix\<close>, both 4x4 matrices. Nodes and instance lists hold references
  to \<open>Transform\<close> objects, so a transform is a reference (a number) and \<open>transforms\<close>
  gives the current value behind each reference.
\<close>

record Transform =
  worldMatrix :: Mat4
  worldNormalMatrix :: Mat4

type_synonym transforms = "nat \<Rightarrow> Transform"

text \<open>
  A \<open>GLTFNode\<close> keeps \<open>node.mesh\<close>; its \<open>a_mesh\<close> is \<open>meshes[node.mesh]\<close>
  (\<open>createGLTFNode\<close>), \<open>undefined\<close> when the index is absent or out of range.
\<close>

datatype GLTFNode = GLTFNode (mesh: "nat option") (transform: nat) (children: "GLTFNode list")

text \<open>
  Objects of the GPU are handles. A \<open>GPUDevice\<close> hands out a new handle for every object
  it creates: its state is the number of objects created so far, which is the next handle.
\<close>

type_synonym GPUDevice = nat

text \<open>
  A \<open>GLTFBufferView\<close> with its \<open>byteStride\<close> (0 when the file gives none) and its
  \<open>gpuBuffer\<close>, \<open>null\<close> until the view is uploaded. \<open>addUsage\<close> only changes the usage
  flags of the view, which nothing below reads.
\<close>

record GLTFBufferView =
  view_byteStride :: nat
  gpuBuffer :: "nat option"

text \<open>
  A \<open>GLTFAccessor\<close>: \<open>view\<close> is \<open>bufferViews[accessor.bufferView]\<close> (line 316),
  \<open>undefined\<close> when the file names no buffer view or one that does not exist; the other
  fields are the members of the accessor in the file, \<open>byteOffset\<close> being 0 when absent.
\<close>

record GLTFAccessor =
  view :: "GLTFBufferView option"
  bufferView :: "nat option"
  componentType :: nat
  acc_count :: nat
  type' :: string
  byteOffset :: nat

definition GLTFTypeNumber :: "string \<Rightarrow> nat option" where
  "GLTFTypeNumber t =
     (if t = ''SCALAR'' then Some 1 else if t = ''VEC2'' then Some 2
      else if t = ''VEC3'' then Some 3 else if t = ''VEC4'' then Some 4
      else if t = ''MAT2'' then Some 4 else if t = ''MAT3'' then Some 9
      else if t = ''MAT4'' then Some 16 else None)"

definition GLTFComponentType :: "nat \<Rightarrow> string option" where
  "GLTFComponentType c =
     (if c = 5120 then Some ''BYTE'' else if c = 5121 then Some ''UNSIGNED_BYTE''
      else if c = 5122 then Some ''SHORT'' else if c = 5123 then Some ''UNSIGNED_SHORT''
      else if c = 5124 then Some ''INT'' else if c = 5125 then Some ''UNSIGNED_INT''
      else if c = 5126 then Some ''FLOAT'' else if c = 5130 then Some ''DOUBLE'' else None)"

definition GLTFComponentTypeSize :: "string \<Rightarrow> nat option" where
  "GLTFComponentTypeSize n =
     (if n = ''BYTE'' then Some 1 else if n = ''UNSIGNED_BYTE'' then Some 1
      else if n = ''SHORT'' then Some 2 else if n = ''UNSIGNED_SHORT'' then Some 2
      else if n = ''INT'' then Some 4 else if n = ''UNSIGNED_INT'' then Some 4
      else if n = ''FLOAT'' then Some 4 else if n = ''DOUBLE'' then Some 8 else None)"

definition GLTFComponentType2GPUVertexFormat :: "string \<Rightarrow> string option" where
  "GLTFComponentType2GPUVertexFormat n =
     (if n = ''BYTE'' then Some ''sint8'' else if n = ''UNSIGNED_BYTE'' then Some ''uint8''
      else if n = ''SHORT'' then Some ''sint16'' else if n = ''UNSIGNED_SHORT'' then Some ''uint16''
      else if n = ''INT'' then Some ''int32'' else if n = ''UNSIGNED_INT'' then Some ''uint32''
      else if n = ''FLOAT'' then Some ''float32'' else None)"

text \<open>
  The getters of \<open>GLTFAccessor\<close> (lines 974-1003). A number that is \<open>NaN\<close> is \<open>None\<close>.
  \<open>byteStride\<close> reads \<open>this.view.byteStride\<close> and so throws a \<open>TypeError\<close> on an
  accessor without view.
\<close>

definition byteStride :: "GLTFAccessor \<Rightarrow> js_error + nat option" where
  "byteStride a =
     (let elementSize =
            (case (GLTFTypeNumber (type' a),
                   Option.bind (GLTFComponentType (componentType a)) GLTFComponentTypeSize) of
               (Some n, Some s) \<Rightarrow> Some (n * s)
             | _ \<Rightarrow> None)
      in case view a of
           None \<Rightarrow> Inl TypeError
         | Some v \<Rightarrow> Inr (map_option (\<lambda>e. max e (view_byteStride v)) elementSize))"

definition byteLength :: "GLTFAccessor \<Rightarrow> js_error + nat option" where
  "byteLength a =
     (case byteStride a of
        Inl e \<Rightarrow> Inl e
      | Inr stride \<Rightarrow> Inr (map_option (\<lambda>s. acc_count a * s) stride))"

definition vertexType :: "GLTFAccessor \<Rightarrow> js_error + string" where
  "vertexType a =
     (case Option.bind (GLTFComponentType (componentType a)) GLTFComponentType2GPUVertexFormat of
        None \<Rightarrow> Inl (Error (''Unrecognized or unsupported glTF type ''
                              @ Number_toString (int (componentType a))))
      | Some f \<Rightarrow>
          (case GLTFTypeNumber (type' a) of
             Some n \<Rightarrow> Inr (if n > 1 then f @ ''x'' @ Number_toString (int n) else f)
           | None \<Rightarrow> Inr f))"

text \<open>
  A \<open>GLTFMaterial\<close>: its \<open>__json\<close> and the properties its constructor derives from it
  that the builder reads.
\<close>

record GLTFMaterial =
  m_json :: json
  alphaMode :: string
  doubleSided :: bool
  useAlphaCutoff :: bool

section \<open>Constructing a \<open>GLTFPrimitive\<close>\<close>

record AttributeAccessor =
  name :: string
  shaderLocation :: nat
  a_accessor :: "GLTFAccessor option"

record GPUVertexAttribute =
  v_shaderLocation :: nat
  v_format :: string
  v_offset :: int

record GPUVertexBufferLayout =
  arrayStride :: "nat option"
  attributes :: "GPUVertexAttribute list"

record GPUBufferAccessor =
  accessor :: GLTFAccessor
  buf_offset :: nat

text \<open>
  A \<open>GLTFPrimitive\<close> object: \<open>p_json\<close> is its \<open>__json\<close>, the primitive as the
  file's JSON has it, which is also the element of \<open>mesh.primitives\<close> that the node
  traversal serialises; \<open>Object.assign(this, this.__json)\<close> makes \<open>this.attributes\<close>
  the member \<open>attributes\<close> of \<open>p_json\<close>.
\<close>

record GLTFPrimitive =
  p_json :: json
  a_indices :: "GLTFAccessor option"
  topology :: int
  attributeAccessors :: "AttributeAccessor list"
  a_material :: "GLTFMaterial option"
  vertexCount :: nat
  bufferLayout :: "GPUVertexBufferLayout list"
  gpuBuffers :: "GPUBufferAccessor list"

text \<open>
  \<open>setPrimitive\<close> (lines 816-892). The sort of the attribute accessors by
  \<open>accessor.byteOffset\<close> calls its comparator as soon as there are two elements, and the
  comparator throws a \<open>TypeError\<close> on an attribute whose accessor is \<open>undefined\<close>; the sort
  is stable.
\<close>

definition sort_attributeAccessors :: "AttributeAccessor list \<Rightarrow> js_error + AttributeAccessor list" where
  "sort_attributeAccessors as =
     (if length as < 2 then Inr as
      else if list_ex (\<lambda>a. a_accessor a = None) as then Inl TypeError
      else Inr (sort_key (\<lambda>a. case a_accessor a of None \<Rightarrow> 0 | Some acc \<Rightarrow> byteOffset acc) as))"

text \<open>
  The two maps of \<open>setPrimitive\<close> as one association list in the insertion order of
  \<open>bufferLayout\<close>: under each key the \<open>GPUVertexBufferLayout\<close> and the entry that
  \<open>gpuBuffers\<close> holds for it. A key is \<open>accessor.bufferView\<close> or an attribute name.
\<close>

datatype BufferKey = ByView "nat option" | ByName string

type_synonym buffer_layouts = "(BufferKey \<times> GPUVertexBufferLayout \<times> GPUBufferAccessor) list"

definition first_offset :: "GPUVertexBufferLayout \<Rightarrow> int" where
  "first_offset l = (case attributes l of [] \<Rightarrow> 0 | a # as \<Rightarrow> v_offset a)"

definition first_shaderLocation :: "GPUVertexBufferLayout \<Rightarrow> nat" where
  "first_shaderLocation l = (case attributes l of [] \<Rightarrow> 0 | a # as \<Rightarrow> v_shaderLocation a)"

text \<open>
  The callback of the \<open>forEach\<close> (lines 824-860); the state is \<open>vertexCount\<close> and
  the maps. \<open>accessor.count\<close> and \<open>accessor.view.addUsage(...)\<close> throw a \<open>TypeError\<close>
  when the accessor or its view is \<open>undefined\<close>, and \<open>accessor.vertexType\<close> throws on a
  component type without vertex format.
\<close>

definition add_attribute ::
  "AttributeAccessor \<Rightarrow> nat \<times> buffer_layouts \<Rightarrow> js_error + nat \<times> buffer_layouts" where
  "add_attribute aa st =
     (case a_accessor aa of
        None \<Rightarrow> Inl TypeError
      | Some acc \<Rightarrow>
          (case (if view acc = None then Inl TypeError else byteStride acc) of
             Inl e \<Rightarrow> Inl e
           | Inr stride \<Rightarrow>
               (let count = (if name aa = ''POSITION'' then acc_count acc else fst st);
                    buffer = map_of (snd st) (ByView (bufferView acc));
                    separate =
                      (case buffer of
                         None \<Rightarrow> False
                       | Some (l, g) \<Rightarrow>
                           (case arrayStride l of
                              None \<Rightarrow> False
                            | Some s \<Rightarrow> \<bar>int (byteOffset acc) - first_offset l\<bar> \<ge> int s));
                    fresh = (\<lparr> arrayStride = stride, attributes = [] \<rparr>,
                             \<lparr> accessor = acc, buf_offset = byteOffset acc \<rparr>);
                    key = (if separate then ByName (name aa) else ByView (bufferView acc));
                    lg = (case buffer of
                            None \<Rightarrow> fresh
                          | Some (l, g) \<Rightarrow>
                              if separate then fresh
                              else (l, g \<lparr> buf_offset := min (buf_offset g) (byteOffset acc) \<rparr>))
                in case vertexType acc of
                     Inl e \<Rightarrow> Inl e
                   | Inr f \<Rightarrow>
                       Inr (count,
                            AList.update key
                              ((fst lg) \<lparr> attributes := attributes (fst lg) @
                                           [\<lparr> v_shaderLocation = shaderLocation aa, v_format = f,
                                              v_offset = int (byteOffset acc) \<rparr>] \<rparr>,
                               snd lg)
                              (snd st)))))"

text \<open>
  The end of \<open>setPrimitive\<close> (lines 863-891): the offsets become relative to the offset of
  the GPU buffer, the attributes of each layout are sorted by shader location, the layouts by
  the shader location of their first attribute, and \<open>gpuBuffers\<close> follows that order.
\<close>

definition finish_layouts ::
  "buffer_layouts \<Rightarrow> GPUVertexBufferLayout list \<times> GPUBufferAccessor list" where
  "finish_layouts ls =
     (let adjusted =
            map (\<lambda>(k, l, g).
                   (l \<lparr> attributes :=
                         sort_key v_shaderLocation
                           (map (\<lambda>a. a \<lparr> v_offset := v_offset a - int (buf_offset g) \<rparr>)
                                (attributes l)) \<rparr>, g)) ls;
          ordered = sort_key (\<lambda>lg. first_shaderLocation (fst lg)) adjusted
      in (map fst ordered, map snd ordered))"

definition setPrimitive ::
  "AttributeAccessor list
     \<Rightarrow> js_error + (AttributeAccessor list \<times> nat \<times> GPUVertexBufferLayout list \<times> GPUBufferAccessor list)" where
  "setPrimitive as =
     (case sort_attributeAccessors as of
        Inl e \<Rightarrow> Inl e
      | Inr ordered \<Rightarrow>
          (case forEachE add_attribute ordered (0, []) of
             Inl e \<Rightarrow> Inl e
           | Inr st \<Rightarrow> Inr (ordered, fst st, finish_layouts (snd st))))"

text \<open>
  The constructor (lines 774-786): \<open>this.a_indices?.view.addUsage(...)\<close> throws a
  \<open>TypeError\<close> when there are indices whose accessor has no view, then \<open>setPrimitive\<close>.
\<close>

definition GLTFPrimitive_new ::
  "GLTFAccessor option \<Rightarrow> int \<Rightarrow> AttributeAccessor list \<Rightarrow> GLTFMaterial option \<Rightarrow> json
     \<Rightarrow> js_error + GLTFPrimitive" where
  "GLTFPrimitive_new idx topo as material json =
     (if (case idx of None \<Rightarrow> False | Some i \<Rightarrow> view i = None) then Inl TypeError
      else case setPrimitive as of
             Inl e \<Rightarrow> Inl e
           | Inr r \<Rightarrow>
               Inr \<lparr> p_json = json, a_indices = idx, topology = topo,
                     attributeAccessors = fst r, a_material = material,
                     vertexCount = fst (snd r),
                     bufferLayout = fst (snd (snd r)),
                     gpuBuffers = snd (snd (snd r)) \<rparr>)"

section \<open>Loading the primitives of a mesh\<close>

text \<open>
  A primitive of the file is typed by the interface \<open>GLTFPrimitive\<close> (lines 189-194): an
  object whose members \<open>mode\<close>, \<open>indices\<close> and \<open>material\<close> are numbers and whose member
  \<open>attributes\<close> maps names to numbers. It is the list of its members in the order of the
  file, each key at most once.
\<close>

datatype GLTFPrimitiveMember =
    Mode int
  | Attributes "(string \<times> nat) list"
  | Indices nat
  | Material nat

type_synonym GLTFPrimitiveI = "GLTFPrimitiveMember list"

fun member_json :: "GLTFPrimitiveMember \<Rightarrow> string \<times> json" where
  "member_json (Mode m) = (''mode'', JNum m)"
| "member_json (Attributes as) = (''attributes'', JObj (map (\<lambda>kv. (fst kv, JNum (int (snd kv)))) as))"
| "member_json (Indices i) = (''indices'', JNum (int i))"
| "member_json (Material i) = (''material'', JNum (int i))"

definition primitive_json :: "GLTFPrimitiveI \<Rightarrow> json" where
  "primitive_json prim = JObj (map member_json prim)"

fun j_mode :: "GLTFPrimitiveI \<Rightarrow> int option" where
  "j_mode [] = None"
| "j_mode (Mode m # ms) = Some m"
| "j_mode (x # ms) = j_mode ms"

fun j_attributes :: "GLTFPrimitiveI \<Rightarrow> (string \<times> nat) list option" where
  "j_attributes [] = None"
| "j_attributes (Attributes as # ms) = Some as"
| "j_attributes (x # ms) = j_attributes ms"

fun j_indices :: "GLTFPrimitiveI \<Rightarrow> nat option" where
  "j_indices [] = None"
| "j_indices (Indices i # ms) = Some i"
| "j_indices (x # ms) = j_indices ms"

fun j_material :: "GLTFPrimitiveI \<Rightarrow> nat option" where
  "j_material [] = None"
| "j_material (Material i # ms) = Some i"
| "j_material (x # ms) = j_material ms"

definition TRIANGLES :: int where
  "TRIANGLES = 4"

definition in_GLTFRenderMode :: "int \<Rightarrow> bool" where
  "in_GLTFRenderMode t \<longleftrightarrow> 0 \<le> t \<and> t \<le> 6"

definition array_get :: "'a list \<Rightarrow> nat \<Rightarrow> 'a option" where
  "array_get xs i = (if i < length xs then Some (xs ! i) else None)"

definition primitive_mode :: "GLTFPrimitiveI \<Rightarrow> int" where
  "primitive_mode prim = (case j_mode prim of None \<Rightarrow> TRIANGLES | Some m \<Rightarrow> m)"

text \<open>
  The attribute accessors the loader hands to the constructor (lines 363-373): one for every
  attribute name that has a shader location. The table \<open>ShaderLocation\<close> is not part of the
  files at hand and is a parameter.
\<close>

definition attribute_accessors ::
  "(string \<Rightarrow> nat option) \<Rightarrow> GLTFAccessor list \<Rightarrow> (string \<times> nat) list \<Rightarrow> AttributeAccessor list" where
  "attribute_accessors ShaderLocation accessors attrs =
     concat (map (\<lambda>kv. case ShaderLocation (fst kv) of
                         None \<Rightarrow> []
                       | Some loc \<Rightarrow>
                           [\<lparr> name = fst kv, shaderLocation = loc,
                              a_accessor = array_get accessors (snd kv) \<rparr>])
                 attrs)"

text \<open>
  The callback of \<open>mesh.primitives.map\<close> in \<open>GLTFLoaderV2.load\<close> (lines 353-383),
  the call of the constructor included. \<open>accessors\<close> and \<open>materials\<close> are the objects
  that \<open>load\<close> has made of \<open>json.accessors\<close> and \<open>json.materials\<close>. A \<open>throw\<close>
  inside the callback leaves \<open>load\<close> as a whole.
\<close>

definition load_primitive ::
  "(string \<Rightarrow> nat option) \<Rightarrow> GLTFAccessor list \<Rightarrow> GLTFMaterial list \<Rightarrow> GLTFPrimitiveI
     \<Rightarrow> js_error + GLTFPrimitive" where
  "load_primitive ShaderLocation accessors materials prim =
     (let topology = primitive_mode prim
      in if \<not> in_GLTFRenderMode topology
         then Inl (Error (''Unsupported primitive mode '' @ Number_toString topology))
         else (case j_attributes prim of
                 None \<Rightarrow> Inl TypeError
               | Some attrs \<Rightarrow>
                   GLTFPrimitive_new
                     (case j_indices prim of
                        None \<Rightarrow> None
                      | Some i \<Rightarrow> if i < length accessors then Some (accessors ! i) else None)
                     topology
                     (attribute_accessors ShaderLocation accessors attrs)
                     (case j_material prim of
                        None \<Rightarrow> None
                      | Some i \<Rightarrow> array_get materials i)
                     (primitive_json prim)))"

definition load_meshes ::
  "(string \<Rightarrow> nat option) \<Rightarrow> GLTFAccessor list \<Rightarrow> GLTFMaterial list \<Rightarrow> GLTFPrimitiveI list list
     \<Rightarrow> js_error + GLTFPrimitive list list" where
  "load_meshes ShaderLocation accessors materials meshes =
     mapE (\<lambda>mesh_primitives. mapE (load_primitive ShaderLocation accessors materials)
                                  mesh_primitives) meshes"

section \<open>What a primitive and its material hand to the builder\<close>

record GPUShaderModuleCacheKey =
  code :: string
  context' :: json

text \<open>
  The caches of \<open>scene/cache\<close> and \<open>getBindGroupEntries\<close> are not part of the files at
  hand: \<open>cached.bindGroupLayout.get\<close> and \<open>cached.pipeline.get\<close> are parameters that
  return the handle of the cached object, \<open>cached.sampler.default\<close> is a handle, and
  \<open>options_device\<close> is the device of the options.
\<close>

record BuildOptions =
  options_device :: GPUDevice
  format :: string
  depthFormat :: string
  scene_bindGroupLayout :: nat
  cached_bindGroupLayout_get :: "json \<Rightarrow> nat"
  cached_pipeline_get :: "GPUShaderModuleCacheKey \<Rightarrow> json \<Rightarrow> json \<Rightarrow> nat list \<Rightarrow> nat"
  cached_sampler_default :: nat

text \<open>
  \<open>MeshPhysicalMaterial.build\<close> (MeshPhysicalMaterial.ts, lines 118-164), which
  \<open>GLTFMaterial\<close> inherits unchanged. It creates the uniform buffer and five texture views
  and returns an object with the members \<open>resources\<close>, \<open>bindGroupLayoutEntries\<close> and
  \<open>fragment\<close>, the last being \<open>{code, context}\<close>. The visibility is
  \<open>GPUShaderStage.FRAGMENT\<close>. The texture uploads are left out.
\<close>

record MaterialBuild =
  resources :: "nat list"
  bindGroupLayoutEntries :: json
  fragment :: json

definition pbr_light_wgsl :: string where
  "pbr_light_wgsl = ''fragment-wgsl/mesh/pbr-light.wgsl''"

definition MeshPhysicalMaterial_build ::
  "BuildOptions \<Rightarrow> GPUDevice \<Rightarrow> nat \<Rightarrow> GLTFMaterial \<Rightarrow> MaterialBuild \<times> GPUDevice" where
  "MeshPhysicalMaterial_build options dev bindingStart m =
     (\<lparr> resources = dev # map (\<lambda>i. dev + i) [1, 2, 3, 4, 5] @ [cached_sampler_default options],
        bindGroupLayoutEntries =
          JArr (JObj [(''binding'', JNum (int bindingStart)), (''visibility'', JNum 2),
                      (''buffer'', JObj [(''type'', JStr ''uniform'')])]
                # map (\<lambda>binding.
                         JObj [(''binding'', JNum (int (bindingStart + binding))),
                               (''visibility'', JNum 2),
                               (''texture'', JObj [(''viewDimension'', JStr ''2d'')])])
                      [1, 2, 3, 4, 5]
                @ [JObj [(''binding'', JNum (int (bindingStart + 6))), (''visibility'', JNum 2),
                         (''sampler'', JObj [(''type'', JStr ''filtering'')])]]),
        fragment = JObj [(''code'', JStr pbr_light_wgsl),
                         (''context'', JObj [(''polyfill'', JBool False),
                                             (''useAlphaCutoff'', JBool (useAlphaCutoff m))])] \<rparr>,
      dev + 6)"

text \<open>
  \<open>buildVertex\<close> (lines 788-813). The pipeline arguments are descriptor data; the buffer
  layout is written as the JSON value that \<open>JSON.stringify\<close> sees.
\<close>

definition attribute_json :: "GPUVertexAttribute \<Rightarrow> json" where
  "attribute_json a =
     JObj [(''shaderLocation'', JNum (int (v_shaderLocation a))), (''format'', JStr (v_format a)),
           (''offset'', JNum (v_offset a))]"

definition bufferLayout_json :: "GPUVertexBufferLayout list \<Rightarrow> json" where
  "bufferLayout_json ls =
     JArr (map (\<lambda>l. JObj [(''arrayStride'',
                            (case arrayStride l of None \<Rightarrow> JNull | Some s \<Rightarrow> JNum (int s))),
                           (''attributes'', JArr (map attribute_json (attributes l)))]) ls)"

record PrimitiveBuild = MaterialBuild +
  args :: "(string \<times> json) list"
  vertex :: GPUShaderModuleCacheKey
  b_vertexCount :: nat
  b_gpuBuffers :: "GPUBufferAccessor list"
  b_indices :: "GLTFAccessor option"

record VertexBuild =
  v_args :: "(string \<times> json) list"
  v_vertex :: GPUShaderModuleCacheKey
  v_vertexCount :: nat
  v_gpuBuffers :: "GPUBufferAccessor list"
  v_indices :: "GLTFAccessor option"

definition normal_wgsl :: string where
  "normal_wgsl = ''vertex-wgsl/normal.wgsl''"

definition TRIANGLE_STRIP :: int where
  "TRIANGLE_STRIP = 5"

definition buildVertex :: "GLTFPrimitive \<Rightarrow> js_error + VertexBuild" where
  "buildVertex p =
     (case (if topology p = TRIANGLE_STRIP
            then (case a_indices p of
                    None \<Rightarrow> Inr [(''topology'', JStr ''triangle-strip'')]
                  | Some i \<Rightarrow>
                      (case vertexType i of
                         Inl e \<Rightarrow> Inl e
                       | Inr t \<Rightarrow> Inr [(''topology'', JStr ''triangle-strip''),
                                       (''stripIndexFormat'', JStr t)]))
            else Inr [(''topology'', JStr ''triangle-list'')]) of
        Inl e \<Rightarrow> Inl e
      | Inr primitive \<Rightarrow>
          (case js_in ''NORMAL'' (get_property ''attributes'' (p_json p)) of
             Inl e \<Rightarrow> Inl e
           | Inr useNormal \<Rightarrow>
               (case js_in ''TEXCOORD_0'' (get_property ''attributes'' (p_json p)) of
                  Inl e \<Rightarrow> Inl e
                | Inr useTexcoord \<Rightarrow>
                    Inr \<lparr> v_args =
                            [(''primitive'', JObj primitive),
                             (''bufferLayout'', bufferLayout_json (bufferLayout p)),
                             (''alphaMode'', (case a_material p of
                                                None \<Rightarrow> JUndefined
                                              | Some m \<Rightarrow> JStr (alphaMode m))),
                             (''doubleSided'', (case a_material p of
                                                  None \<Rightarrow> JUndefined
                                                | Some m \<Rightarrow> JBool (doubleSided m)))],
                          v_vertex = \<lparr> code = normal_wgsl,
                                       context' = JObj [(''useNormal'', JBool useNormal),
                                                        (''useTexcoord'', JBool useTexcoord)] \<rparr>,
                          v_vertexCount = vertexCount p,
                          v_gpuBuffers = gpuBuffers p,
                          v_indices = a_indices p \<rparr>)))"

text \<open>
  \<open>GLTFPrimitive.build\<close> (lines 895-900): a primitive without material returns
  nothing (\<open>None\<close>); otherwise the result is \<open>{...vertexRes, ...fragmentRes}\<close>, the
  members of the vertex part followed by the members of what the material's \<open>build\<close>
  returns.
\<close>

definition GLTFPrimitive_build ::
  "BuildOptions \<Rightarrow> GPUDevice \<Rightarrow> GLTFPrimitive \<Rightarrow> js_error + (PrimitiveBuild option \<times> GPUDevice)" where
  "GLTFPrimitive_build options dev p =
     (case a_material p of
        None \<Rightarrow> Inr (None, dev)
      | Some m \<Rightarrow>
          (case buildVertex p of
             Inl e \<Rightarrow> Inl e
           | Inr vertexRes \<Rightarrow>
               (let (fragmentRes, dev') = MeshPhysicalMaterial_build options dev 0 m
                in Inr (Some \<lparr> resources = resources fragmentRes,
                               bindGroupLayoutEntries = bindGroupLayoutEntries fragmentRes,
                               fragment = fragment fragmentRes,
                               args = v_args vertexRes, vertex = v_vertex vertexRes,
                               b_vertexCount = v_vertexCount vertexRes,
                               b_gpuBuffers = v_gpuBuffers vertexRes,
                               b_indices = v_indices vertexRes \<rparr>, dev'))))"

section \<open>The scene and its render order\<close>

record InstanceRange =
  first :: nat
  count :: nat

record RenderPrimitive =
  buffers :: "GPUBufferAccessor list"
  indices :: "GLTFAccessor option"
  r_vertexCount :: nat
  instanceInAll :: "InstanceRange option"

text \<open>
  A \<open>RenderNode\<close> is created together with its bind group, and the device hands out a
  new bind group at every \<open>createBindGroup\<close>; two \<open>RenderNode\<close> objects are the same
  object exactly when they are equal as values. The \<open>Map\<close>s are association lists in
  insertion order: \<open>Map.set\<close> of a present key replaces the value in place, of a new key
  appends (\<open>AList.update\<close>).
\<close>

record RenderNode =
  groupIndex :: nat
  bindGroup :: nat
  primitive :: GLTFPrimitive

record RenderPipeline =
  pipeline :: nat
  materialPrimitivesMap :: "(RenderNode \<times> RenderPrimitive list) list"

record PrimitiveInstancesType =
  total' :: nat
  offset :: nat
  matrices :: "(string option \<times> nat list) list"
  arrayBuffer :: "float32 list option"

text \<open>A GPU buffer of \<open>size'\<close> bytes; \<open>contents\<close> are its floats.\<close>

record GPUBuffer =
  handle :: nat
  size' :: nat
  contents :: "float32 list"

text \<open>
  The fields of a \<open>GLTFScene\<close> that \<open>build\<close>, \<open>updateBuffers\<close> and \<open>render\<close>
  use. A mesh is the list of its \<open>a_primitives\<close>. The fields that \<open>build\<close> assigns are
  \<open>undefined\<close> (\<open>None\<close>) before. \<open>device\<close> is the field \<open>this.device\<close> that
  \<open>updateBuffers\<close> reads: neither the constructor (lines 452-462) nor \<open>build\<close> assigns
  it, and the classes \<open>Group\<close> and \<open>EntityObject\<close> above \<open>GLTFScene\<close> are not part of
  the files at hand, so its value after construction is a parameter. The statistics of
  \<open>CreateAndSetRecord\<close> and the upload of the buffer views at the start of \<open>build\<close> are
  left out.
\<close>

record GLTFScene =
  children' :: "GLTFNode list"
  a_meshs :: "GLTFPrimitive list list"
  renderPipelines :: "(string option \<times> RenderPipeline) list"
  nodeBindGroupLayout :: "nat option"
  instanceBuffer :: "GPUBuffer option"
  instanceBindGroup :: "nat option"
  instanceBindGroupIndex :: "nat option"
  primitiveInstances :: "PrimitiveInstancesType option"
  device :: "GPUDevice option"

definition GLTFScene_new ::
  "GLTFNode list \<Rightarrow> GLTFPrimitive list list \<Rightarrow> GPUDevice option \<Rightarrow> GLTFScene" where
  "GLTFScene_new a_node meshs dev =
     \<lparr> children' = a_node, a_meshs = meshs, renderPipelines = [],
       nodeBindGroupLayout = None, instanceBuffer = None, instanceBindGroup = None,
       instanceBindGroupIndex = None, primitiveInstances = None, device = dev \<rparr>"

fun traverseNode :: "(GLTFNode \<Rightarrow> 's \<Rightarrow> 's) \<Rightarrow> GLTFNode \<Rightarrow> 's \<Rightarrow> 's" where
  "traverseNode callback (GLTFNode m t cs) s =
     fold (traverseNode callback) cs (callback (GLTFNode m t cs) s)"

definition traverse :: "(GLTFNode \<Rightarrow> 's \<Rightarrow> 's) \<Rightarrow> GLTFNode list \<Rightarrow> 's \<Rightarrow> 's" where
  "traverse callback nodes s = fold (traverseNode callback) nodes s"

definition a_mesh :: "GLTFPrimitive list list \<Rightarrow> GLTFNode \<Rightarrow> GLTFPrimitive list option" where
  "a_mesh meshs a_node =
     (case mesh a_node of
        None \<Rightarrow> None
      | Some i \<Rightarrow> if i < length meshs then Some (meshs ! i) else None)"

text \<open>
  The keys. \<open>primitiveNodesKey\<close> is the key of the group of a primitive (lines 502 and
  652), \<open>materialKey\<close> the key of a material (line 552), and \<open>pipelineKey\<close> the key
  \<open>ks\<close> of a pipeline (lines 571-574), the text of the pipeline arguments followed by the
  contexts of the two shaders.
\<close>

definition primitiveNodesKey :: "json \<Rightarrow> string option" where
  "primitiveNodesKey prim = JSON_stringify prim"

definition materialKey :: "GLTFPrimitive \<Rightarrow> string option" where
  "materialKey a_primitive =
     (case a_material a_primitive of None \<Rightarrow> None | Some m \<Rightarrow> JSON_stringify (m_json m))"

definition pipelineState :: "(string \<times> json) list \<Rightarrow> json \<Rightarrow> json \<Rightarrow> json" where
  "pipelineState as vertex_context fragment_context =
     JObj (as @ [(''shaderContext'',
                  JObj [(''vertex'', vertex_context), (''fragment'', fragment_context)])])"

definition pipelineKey :: "(string \<times> json) list \<Rightarrow> json \<Rightarrow> json \<Rightarrow> string option" where
  "pipelineKey as vertex_context fragment_context =
     JSON_stringify (pipelineState as vertex_context fragment_context)"

text \<open>The callback of the node traversal in \<open>build\<close> (lines 498-511).\<close>

definition add_primitive_node :: "nat \<Rightarrow> json \<Rightarrow> PrimitiveInstancesType \<Rightarrow> PrimitiveInstancesType" where
  "add_primitive_node t prim pinst =
     (let primitiveNodes = (case map_of (matrices pinst) (primitiveNodesKey prim) of
                              None \<Rightarrow> []
                            | Some ns \<Rightarrow> ns)
      in pinst
           \<lparr> matrices := AList.update (primitiveNodesKey prim) (primitiveNodes @ [t])
                                       (matrices pinst),
             total' := total' pinst + 1 \<rparr>)"

definition collect_node ::
  "GLTFPrimitive list list \<Rightarrow> GLTFNode \<Rightarrow> PrimitiveInstancesType \<Rightarrow> PrimitiveInstancesType" where
  "collect_node meshs a_node pinst =
     (case a_mesh meshs a_node of
        None \<Rightarrow> pinst
      | Some m \<Rightarrow> fold (add_primitive_node (transform a_node)) (map p_json m) pinst)"

text \<open>
  \<open>setInstancePosForPrimitiveNodes\<close> (lines 646-666). \<open>write_instances\<close> is its
  \<open>for\<close> loop over \<open>nodes[i]\<close>, with \<open>k = first + i\<close>.
\<close>

fun write_instances :: "transforms \<Rightarrow> nat list \<Rightarrow> nat \<Rightarrow> float32 list \<Rightarrow> js_error + float32 list" where
  "write_instances tf [] k ab = Inr ab"
| "write_instances tf (n # ns) k ab =
     (case TypedArray_set ab (Rep_Mat4 (worldMatrix (tf n))) (k * 32) of
        Inl e \<Rightarrow> Inl e
      | Inr ab1 \<Rightarrow>
          (case TypedArray_set ab1 (Rep_Mat4 (worldNormalMatrix (tf n))) (k * 32 + 16) of
             Inl e \<Rightarrow> Inl e
           | Inr ab2 \<Rightarrow> write_instances tf ns (k + 1) ab2))"

definition setInstancePosForPrimitiveNodes ::
  "transforms \<Rightarrow> GLTFPrimitive \<Rightarrow> PrimitiveInstancesType
     \<Rightarrow> js_error + (InstanceRange option \<times> PrimitiveInstancesType)" where
  "setInstancePosForPrimitiveNodes tf prim pinst =
     (case arrayBuffer pinst of
        None \<Rightarrow> Inr (None, pinst)
      | Some ab \<Rightarrow>
          (case map_of (matrices pinst) (primitiveNodesKey (p_json prim)) of
             None \<Rightarrow> Inl TypeError
           | Some nodes \<Rightarrow>
               (case write_instances tf nodes (offset pinst) ab of
                  Inl e \<Rightarrow> Inl e
                | Inr ab' \<Rightarrow>
                    Inr (Some \<lparr> first = offset pinst, count = length nodes \<rparr>,
                         pinst
                           \<lparr> arrayBuffer := Some ab',
                             offset := offset pinst + length nodes \<rparr>))))"

text \<open>
  The body of the loop over the primitives of all meshes in \<open>build\<close> (lines 542-619).
  Its state is the \<open>materialCache\<close>, the \<open>primitiveInstances\<close> under construction, the
  device of the options and the scene. A bind group is its handle: what
  \<open>getBindGroupEntries\<close> makes of the resources does not enter.
\<close>

record BuildLoop =
  materialCache :: "(string option \<times> RenderNode) list"
  l_primitiveInstances :: PrimitiveInstancesType
  l_device :: GPUDevice
  self :: GLTFScene

definition pipelineDescriptor :: "BuildOptions \<Rightarrow> (string \<times> json) list \<Rightarrow> json" where
  "pipelineDescriptor options as =
     JObj ((''format'', JStr (format options)) # as @
           [(''depthStencil'', JObj [(''format'', JStr (depthFormat options)),
                                     (''depthWriteEnabled'', JBool True),
                                     (''depthCompare'', JStr ''less'')])])"

definition get_material :: "GLTFPrimitive \<Rightarrow> BuildLoop \<Rightarrow> RenderNode \<times> BuildLoop" where
  "get_material a_primitive st =
     (case map_of (materialCache st) (materialKey a_primitive) of
        Some material \<Rightarrow> (material, st)
      | None \<Rightarrow>
          (let material = \<lparr> groupIndex = 2, bindGroup = l_device st,
                            primitive = a_primitive \<rparr>
           in (material,
               st \<lparr> materialCache := materialCache st @ [(materialKey a_primitive, material)],
                    l_device := l_device st + 1 \<rparr>)))"

definition get_renderPipeline ::
  "BuildOptions \<Rightarrow> nat \<Rightarrow> nat \<Rightarrow> string option \<Rightarrow> PrimitiveBuild \<Rightarrow> json \<Rightarrow> BuildLoop
     \<Rightarrow> RenderPipeline \<times> BuildLoop" where
  "get_renderPipeline options nodeLayout materialLayout ks b shader st =
     (case map_of (renderPipelines (self st)) ks of
        Some renderPipeline \<Rightarrow> (renderPipeline, st)
      | None \<Rightarrow>
          (let renderPipeline =
                 \<lparr> pipeline = cached_pipeline_get options (vertex b) shader
                                (pipelineDescriptor options (args b))
                                [scene_bindGroupLayout options, nodeLayout, materialLayout],
                   materialPrimitivesMap = [] \<rparr>
           in (renderPipeline,
               st \<lparr> self := (self st)
                      \<lparr> renderPipelines :=
                          renderPipelines (self st) @ [(ks, renderPipeline)] \<rparr> \<rparr>)))"

text \<open>
  The destructuring at lines 543-550 takes \<open>resources\<close>, \<open>bindGroupLayoutEntries\<close> and
  \<open>shader\<close> out of the member \<open>fragment\<close> of what \<open>a_primitive.build\<close> returns, and
  throws a \<open>TypeError\<close> when \<open>build\<close> returned nothing. Line 573 reads
  \<open>shader.context\<close>.
\<close>

definition build_primitive ::
  "BuildOptions \<Rightarrow> nat \<Rightarrow> transforms \<Rightarrow> GLTFPrimitive \<Rightarrow> BuildLoop \<Rightarrow> js_error + BuildLoop" where
  "build_primitive options nodeLayout tf a_primitive st =
     (case GLTFPrimitive_build options (l_device st) a_primitive of
        Inl e \<Rightarrow> Inl e
      | Inr (None, dev) \<Rightarrow> Inl TypeError
      | Inr (Some b, dev) \<Rightarrow>
          (if fragment b = JUndefined \<or> fragment b = JNull then Inl TypeError
           else
             (let res = get_property ''resources'' (fragment b);
                  entries = get_property ''bindGroupLayoutEntries'' (fragment b);
                  shader = get_property ''shader'' (fragment b);
                  materialBindGroupLayout = cached_bindGroupLayout_get options entries;
                  (material, st1) = get_material a_primitive (st \<lparr> l_device := dev \<rparr>)
              in case GetV shader ''context'' of
                   Inl e \<Rightarrow> Inl e
                 | Inr fragment_context \<Rightarrow>
                     (let ks = pipelineKey (args b) (context' (vertex b)) fragment_context;
                          (renderPipeline, st2) =
                            get_renderPipeline options nodeLayout materialBindGroupLayout ks b
                              shader st1;
                          primitives =
                            (case map_of (materialPrimitivesMap renderPipeline) material of
                               None \<Rightarrow> []
                             | Some ps \<Rightarrow> ps)
                      in case setInstancePosForPrimitiveNodes tf a_primitive
                                (l_primitiveInstances st2) of
                           Inl e \<Rightarrow> Inl e
                         | Inr (inst, pinst) \<Rightarrow>
                             Inr (st2
                               \<lparr> l_primitiveInstances := pinst,
                                 self := (self st2)
                                   \<lparr> renderPipelines :=
                                       AList.update ks
                                         (renderPipeline
                                            \<lparr> materialPrimitivesMap :=
                                                AList.update material
                                                  (primitives @
                                                   [\<lparr> buffers = b_gpuBuffers b,
                                                      indices = b_indices b,
                                                      r_vertexCount = b_vertexCount b,
                                                      instanceInAll = inst \<rparr>])
                                                  (materialPrimitivesMap renderPipeline) \<rparr>)
                                         (renderPipelines (self st2)) \<rparr> \<rparr>)))))"

definition nodeLayoutEntries :: json where
  "nodeLayoutEntries =
     JArr [JObj [(''binding'', JNum 0), (''visibility'', JNum 1),
                 (''buffer'', JObj [(''type'', JStr ''read-only-storage'')])]]"

text \<open>
  \<open>build\<close> (lines 465-631) in its three steps: the traversal of the nodes that fills
  \<open>primitiveInstances\<close>, the loop over the primitives of all meshes, which starts with an
  empty \<open>materialCache\<close> and the mapped instance buffer, and the final assignments after
  \<open>instanceBuffer.unmap()\<close>. The instance buffer and its bind group are the first two
  objects the device creates. An exception ends \<open>build\<close>; the result is then the error.
\<close>

definition collect_instances :: "GLTFScene \<Rightarrow> PrimitiveInstancesType" where
  "collect_instances this =
     traverse (collect_node (a_meshs this)) (children' this)
       \<lparr> total' = 0, offset = 0, matrices = [], arrayBuffer = None \<rparr>"

definition build_meshes ::
  "BuildOptions \<Rightarrow> nat \<Rightarrow> transforms \<Rightarrow> GLTFScene \<Rightarrow> PrimitiveInstancesType
     \<Rightarrow> js_error + BuildLoop" where
  "build_meshes options nodeLayout tf this mapped =
     forEachE (\<lambda>a_mesh. forEachE (build_primitive options nodeLayout tf) a_mesh)
       (a_meshs this)
       \<lparr> materialCache = [], l_primitiveInstances = mapped,
         l_device = options_device options + 2, self = this \<rparr>"

definition build :: "BuildOptions \<Rightarrow> transforms \<Rightarrow> GLTFScene \<Rightarrow> js_error + GLTFScene" where
  "build options tf this =
     (let nodeLayout = cached_bindGroupLayout_get options nodeLayoutEntries;
          pinst = collect_instances this;
          buffer = \<lparr> handle = options_device options,
                     size' = 16 * 2 * 4 * total' pinst,
                     contents = Float32Array_new (16 * 2 * total' pinst) \<rparr>;
          group = options_device options + 1;
          mapped = pinst \<lparr> arrayBuffer := Some (contents buffer) \<rparr>
      in case build_meshes options nodeLayout tf this mapped of
           Inl e \<Rightarrow> Inl e
         | Inr st \<Rightarrow>
             Inr ((self st)
               \<lparr> nodeBindGroupLayout := Some nodeLayout,
                 instanceBindGroup := Some group,
                 instanceBindGroupIndex := Some 1,
                 primitiveInstances :=
                   Some ((l_primitiveInstances st)
                           \<lparr> offset := 0,
                             arrayBuffer := Some (Float32Array_new (size' buffer div 4)) \<rparr>),
                 instanceBuffer :=
                   Some (buffer \<lparr> contents :=
                                    (case arrayBuffer (l_primitiveInstances st) of
                                       None \<Rightarrow> contents buffer
                                     | Some ab \<Rightarrow> ab) \<rparr>) \<rparr>))"

text \<open>
  \<open>updateBuffers\<close> (lines 668-683). \<open>queue.writeBuffer(buffer, 0, data)\<close> of WebGPU
  replaces the front of the buffer by the data; when the data is larger than the buffer the
  device reports a validation error and the buffer stays as it is. The call needs
  \<open>this.device\<close>, \<open>this.instanceBuffer\<close> and the staging array.
\<close>

definition writeBuffer :: "GPUBuffer \<Rightarrow> float32 list \<Rightarrow> GPUBuffer" where
  "writeBuffer buffer data =
     (if 4 * length data > size' buffer then buffer
      else buffer \<lparr> contents := data @ drop (length data) (contents buffer) \<rparr>)"

definition update_primitive ::
  "transforms \<Rightarrow> GLTFPrimitive \<Rightarrow> PrimitiveInstancesType \<Rightarrow> js_error + PrimitiveInstancesType" where
  "update_primitive tf a_primitive pinst =
     (case setInstancePosForPrimitiveNodes tf a_primitive pinst of
        Inl e \<Rightarrow> Inl e
      | Inr (r, pinst') \<Rightarrow> Inr pinst')"

definition updateBuffers :: "transforms \<Rightarrow> GLTFScene \<Rightarrow> js_error + GLTFScene" where
  "updateBuffers tf this =
     (case primitiveInstances this of
        None \<Rightarrow> Inl TypeError
      | Some pi0 \<Rightarrow>
          (case forEachE (\<lambda>a_mesh. forEachE (update_primitive tf) a_mesh) (a_meshs this)
                  (pi0 \<lparr> offset := 0 \<rparr>) of
             Inl e \<Rightarrow> Inl e
           | Inr pi1 \<Rightarrow>
               (case device this of
                  None \<Rightarrow> Inl TypeError
                | Some d \<Rightarrow>
                    (case (instanceBuffer this, arrayBuffer pi1) of
                       (Some buffer, Some ab) \<Rightarrow>
                         Inr (this \<lparr> primitiveInstances := Some pi1,
                                     instanceBuffer := Some (writeBuffer buffer ab) \<rparr>)
                     | _ \<Rightarrow> Inl TypeError))))"

section \<open>Replaying the render order\<close>

text \<open>
  \<open>render\<close> (lines 686-728) as the list of calls it makes on the render pass, after the
  call of \<open>super.render\<close>; a \<open>null\<close> GPU buffer and a \<open>NaN\<close> size are \<open>None\<close>.
  The statistics and their display are left out.
\<close>

datatype GPUCommand =
    setBindGroup nat nat
  | setPipeline nat
  | setVertexBuffer nat "nat option" nat "nat option"
  | setIndexBuffer "nat option" string nat "nat option"
  | drawIndexed nat nat nat nat nat
  | draw nat nat nat nat

fun concat_mapE :: "('a \<Rightarrow> js_error + 'b list) \<Rightarrow> 'a list \<Rightarrow> js_error + 'b list" where
  "concat_mapE f [] = Inr []"
| "concat_mapE f (x # xs) =
     (case f x of
        Inl e \<Rightarrow> Inl e
      | Inr ys \<Rightarrow> (case concat_mapE f xs of Inl e \<Rightarrow> Inl e | Inr zs \<Rightarrow> Inr (ys @ zs)))"

text \<open>The callback of \<open>primitive.buffers.forEach\<close> (lines 702-710).\<close>

definition render_buffer :: "nat \<times> GPUBufferAccessor \<Rightarrow> js_error + GPUCommand list" where
  "render_buffer ib =
     (case view (accessor (snd ib)) of
        None \<Rightarrow> Inl TypeError
      | Some v \<Rightarrow>
          (case byteLength (accessor (snd ib)) of
             Inl e \<Rightarrow> Inl e
           | Inr len \<Rightarrow> Inr [setVertexBuffer (fst ib) (gpuBuffer v) (buf_offset (snd ib)) len]))"





section \<open>Notions used to state the properties\<close>

text \<open>
  The nodes in the order \<open>traverse\<close> visits them, and the node/primitive pairs of a scene:
  one pair of group key and \<open>Transform\<close> for every primitive of the mesh of every node.
\<close>

fun preorder :: "GLTFNode \<Rightarrow> GLTFNode list" where
  "preorder (GLTFNode m t cs) = GLTFNode m t cs # concat (map preorder cs)"

definition node_primitives ::
  "GLTFPrimitive list list \<Rightarrow> GLTFNode list \<Rightarrow> (string option \<times> nat) list" where
  "node_primitives meshs nodes =
     concat (map (\<lambda>n. case a_mesh meshs n of
                        None \<Rightarrow> []
                      | Some m \<Rightarrow> map (\<lambda>p. (primitiveNodesKey (p_json p), transform n)) m)
                 (concat (map preorder nodes)))"

text \<open>
  The \<open>Transform\<close>s of the group of a primitive, the instances of a scene in the order of
  the primitives of its meshes, and the 32 floats of one instance.
\<close>

definition group_nodes :: "PrimitiveInstancesType \<Rightarrow> GLTFPrimitive \<Rightarrow> nat list" where
  "group_nodes pinst p =
     (case map_of (matrices pinst) (primitiveNodesKey (p_json p)) of
        None \<Rightarrow> []
      | Some ns \<Rightarrow> ns)"

definition instance_order :: "GLTFScene \<Rightarrow> nat list" where
  "instance_order this =
     (case primitiveInstances this of
        None \<Rightarrow> []
      | Some pinst \<Rightarrow> concat (map (group_nodes pinst) (concat (a_meshs this))))"

definition transform_block :: "transforms \<Rightarrow> nat \<Rightarrow> float32 list" where
  "transform_block tf n = Rep_Mat4 (worldMatrix (tf n)) @ Rep_Mat4 (worldNormalMatrix (tf n))"



text \<open>
  A scene that has what the last lines of \<open>build\<close> (622-630) assign: the instances with a
  staging array, the instance buffer of the size of that array, a device, a group for every
  primitive of the meshes and room in the array for the blocks of all instances.
\<close>

definition instances_ready :: "GLTFScene \<Rightarrow> bool" where
  "instances_ready this \<longleftrightarrow>
     (case (primitiveInstances this, instanceBuffer this, device this) of
        (Some pinst, Some buffer, Some d) \<Rightarrow>
          (case arrayBuffer pinst of
             None \<Rightarrow> False
           | Some ab \<Rightarrow>
               4 * length ab = size' buffer \<and> length (contents buffer) = length ab
             \<and> list_all (\<lambda>p. map_of (matrices pinst) (primitiveNodesKey (p_json p)) \<noteq> None)
                        (concat (a_meshs this))
             \<and> 32 * length (instance_order this) \<le> length ab)
      | _ \<Rightarrow> False)"

text \<open>
  A primitive of the file without the attributes whose names have no shader location.
\<close>

fun known_member :: "(string \<Rightarrow> nat option) \<Rightarrow> GLTFPrimitiveMember \<Rightarrow> GLTFPrimitiveMember" where
  "known_member ShaderLocation (Attributes as) =
     Attributes (filter (\<lambda>kv. ShaderLocation (fst kv) \<noteq> None) as)"
| "known_member ShaderLocation m = m"

definition known_only :: "(string \<Rightarrow> nat option) \<Rightarrow> GLTFPrimitiveI \<Rightarrow> GLTFPrimitiveI" where
  "known_only ShaderLocation prim = map (known_member ShaderLocation) prim"

text \<open>
  The attributes and the primitives of the file that the constructor of \<open>GLTFPrimitive\<close>
  accepts: an attribute whose accessor exists, has a view and has a component type with a
  vertex format; a primitive with a known mode, with indices that have a view when they name
  an accessor, and with attributes of known name that are all accepted.
\<close>

definition attribute_loads :: "AttributeAccessor \<Rightarrow> bool" where
  "attribute_loads aa \<longleftrightarrow>
     (case a_accessor aa of
        None \<Rightarrow> False
      | Some acc \<Rightarrow> view acc \<noteq> None \<and> (case vertexType acc of Inl e \<Rightarrow> False | Inr f \<Rightarrow> True))"

definition primitive_loads ::
  "(string \<Rightarrow> nat option) \<Rightarrow> GLTFAccessor list \<Rightarrow> GLTFPrimitiveI \<Rightarrow> bool" where
  "primitive_loads ShaderLocation accessors prim \<longleftrightarrow>
     in_GLTFRenderMode (primitive_mode prim)
   \<and> (case j_indices prim of
        None \<Rightarrow> True
      | Some i \<Rightarrow> i < length accessors \<longrightarrow> view (accessors ! i) \<noteq> None)
   \<and> (case j_attributes prim of
        None \<Rightarrow> False
      | Some attrs \<Rightarrow>
          list_all attribute_loads (attribute_accessors ShaderLocation accessors attrs))"




















section \<open>Example scenes\<close>

definition ex_view :: GLTFBufferView where
  "ex_view = \<lparr> view_byteStride = 0, gpuBuffer = Some 40 \<rparr>"

definition ex_accessor :: GLTFAccessor where
  "ex_accessor =
     \<lparr> view = Some ex_view, bufferView = Some 0, componentType = 5126, acc_count = 3,
       type' = ''VEC3'', byteOffset = 0 \<rparr>"

definition ex_index_accessor :: GLTFAccessor where
  "ex_index_accessor =
     \<lparr> view = Some \<lparr> view_byteStride = 0, gpuBuffer = Some 41 \<rparr>, bufferView = Some 1,
       componentType = 5123, acc_count = 3, type' = ''SCALAR'', byteOffset = 0 \<rparr>"

definition ex_material :: GLTFMaterial where
  "ex_material =
     \<lparr> m_json = JObj [(''name'', JStr ''m'')], alphaMode = ''OPAQUE'', doubleSided = False,
       useAlphaCutoff = False \<rparr>"

definition ex_ShaderLocation :: "string \<Rightarrow> nat option" where
  "ex_ShaderLocation k =
     (if k = ''POSITION'' then Some 0 else if k = ''NORMAL'' then Some 1
      else if k = ''TEXCOORD_0'' then Some 2 else None)"

text \<open>
  The primitive \<open>{attributes: {POSITION: n}, material: 0}\<close> as the loader constructs it
  when accessor \<open>n\<close> is \<open>ex_accessor\<close> and material 0 is \<open>ex_material\<close>.
\<close>

definition ex_primitive :: "nat \<Rightarrow> GLTFPrimitive" where
  "ex_primitive n =
     \<lparr> p_json = JObj [(''attributes'', JObj [(''POSITION'', JNum (int n))]),
                      (''material'', JNum 0)],
       a_indices = None, topology = 4,
       attributeAccessors = [\<lparr> name = ''POSITION'', shaderLocation = 0,
                                a_accessor = Some ex_accessor \<rparr>],
       a_material = Some ex_material, vertexCount = 3,
       bufferLayout = [\<lparr> arrayStride = Some 12,
                          attributes = [\<lparr> v_shaderLocation = 0, v_format = ''float32x3'',
                                           v_offset = 0 \<rparr>] \<rparr>],
       gpuBuffers = [\<lparr> accessor = ex_accessor, buf_offset = 0 \<rparr>] \<rparr>"

definition ex_options :: BuildOptions where
  "ex_options =
     \<lparr> options_device = 0, format = ''bgra8unorm'', depthFormat = ''depth24plus'',
       scene_bindGroupLayout = 0, cached_bindGroupLayout_get = (\<lambda>d. 1),
       cached_pipeline_get = (\<lambda>v f d ls. 7), cached_sampler_default = 9 \<rparr>"

definition ex_transforms :: transforms where
  "ex_transforms n =
     \<lparr> worldMatrix = Mat4_of_list (replicate 16 (of_nat n)),
       worldNormalMatrix = Mat4_of_list (replicate 16 (of_nat n + 100)) \<rparr>"

definition ex_node :: "nat \<Rightarrow> nat \<Rightarrow> GLTFNode" where
  "ex_node m t = GLTFNode (Some m) t []"

text \<open>
  The scene of three nodes that share one primitive, in the state that the specification
  describes for it after \<open>build\<close> (end-to-end scenario 1): one group with the range
  \<open>{first: 0, count: 3}\<close>, one pipeline entry, one material entry with one draw entry,
  the instance buffer of 3 blocks and the staging array that lines 624-627 allocate. The
  groups are those the node traversal of \<open>build\<close> collects.
\<close>

definition ex_scene3 :: GLTFScene where
  "ex_scene3 = GLTFScene_new [ex_node 0 1, ex_node 0 2, ex_node 0 3] [[ex_primitive 0]] (Some 0)"

definition ex_built_scene3 :: GLTFScene where
  "ex_built_scene3 =
     ex_scene3
       \<lparr> renderPipelines :=
           [(Some ''ks'',
             \<lparr> pipeline = 7,
               materialPrimitivesMap =
                 [(\<lparr> groupIndex = 2, bindGroup = 2, primitive = ex_primitive 0 \<rparr>,
                   [\<lparr> buffers = gpuBuffers (ex_primitive 0), indices = Some ex_index_accessor,
                      r_vertexCount = 3,
                      instanceInAll = Some \<lparr> first = 0, count = 3 \<rparr> \<rparr>])] \<rparr>)],
         nodeBindGroupLayout := Some 1,
         instanceBuffer := Some \<lparr> handle = 0, size' = 384, contents = Float32Array_new 96 \<rparr>,
         instanceBindGroup := Some 1,
         instanceBindGroupIndex := Some 1,
         primitiveInstances :=
           Some ((collect_instances ex_scene3) \<lparr> arrayBuffer := Some (Float32Array_new 96) \<rparr>) \<rparr>"

section \<open>Basic facts\<close>

lemma Rep_Mat4_of_list:
  "Rep_Mat4 (Mat4_of_list xs) = (if length xs = 16 then xs else replicate 16 0)"
  by (simp add: Mat4_of_list_def Abs_Mat4_inverse)

lemma length_Rep_Mat4: "length (Rep_Mat4 m) = 16"
  using Rep_Mat4 [of m] by simp

lemmas eval_defs = ex_material_def ex_primitive_def ex_options_def ex_transforms_def ex_node_def
  ex_accessor_def ex_view_def ex_index_accessor_def ex_scene3_def ex_built_scene3_def
  GLTFScene_new_def
  build_def build_meshes_def collect_instances_def traverse_def collect_node_def a_mesh_def
  add_primitive_node_def primitiveNodesKey_def JSON_stringify_def
  QuoteJSONString_def quote_char_def Number_toString_def nat_digits.simps build_primitive_def
  GLTFPrimitive_build_def buildVertex_def TRIANGLE_STRIP_def js_in_def get_property_def GetV_def
  MeshPhysicalMaterial_build_def pbr_light_wgsl_def bufferLayout_json_def attribute_json_def
  get_material_def get_renderPipeline_def materialKey_def pipelineKey_def pipelineState_def
  pipelineDescriptor_def
  setInstancePosForPrimitiveNodes_def TypedArray_set_def Float32Array_new_def nodeLayoutEntries_def
  normal_wgsl_def Let_def Rep_Mat4_of_list

section \<open>Cache keys\<close>

lemma SerializeJSONProperty_drop_undefined:
  "SerializeJSONProperty (drop_undefined v) = SerializeJSONProperty v"
proof (induction v rule: drop_undefined.induct)
  case (1 xs)
  then show ?case by (simp add: comp_def cong: map_cong)
next
  case (2 fs)
  have "concat (map (\<lambda>kv. case SerializeJSONProperty (snd kv) of None \<Rightarrow> []
                      | Some s \<Rightarrow> [QuoteJSONString (fst kv) @ '':'' @ s])
                 (map (\<lambda>kv. (fst kv, drop_undefined (snd kv)))
                      (filter (\<lambda>kv. snd kv \<noteq> JUndefined) fs)))
      = concat (map (\<lambda>kv. case SerializeJSONProperty (snd kv) of None \<Rightarrow> []
                      | Some s \<Rightarrow> [QuoteJSONString (fst kv) @ '':'' @ s]) fs)"
    using 2 by (induction fs) (auto split: option.splits)
  then show ?case by simp
qed simp_all

text \<open>
  C2 (as amended). The keys of the groups, of the materials and of the pipelines are
  \<open>JSON.stringify\<close> texts, which leave out the fields that are \<open>undefined\<close> and write
  the others in the order in which the object has them: two descriptors that are equal once
  their \<open>undefined\<close> fields are dropped, fields in the same order, have the same key.
\<close>

theorem stringify_equal_up_to_undefined:
  "(drop_undefined D1 = drop_undefined D2 \<longrightarrow> primitiveNodesKey D1 = primitiveNodesKey D2)
   \<and> (drop_undefined (m_json m1) = drop_undefined (m_json m2) \<longrightarrow>
        materialKey (p1 \<lparr> a_material := Some m1 \<rparr>) = materialKey (p2 \<lparr> a_material := Some m2 \<rparr>))
   \<and> (drop_undefined (pipelineState as1 v1 f1) = drop_undefined (pipelineState as2 v2 f2) \<longrightarrow>
        pipelineKey as1 v1 f1 = pipelineKey as2 v2 f2)"
  unfolding primitiveNodesKey_def materialKey_def pipelineKey_def JSON_stringify_def
  by (auto dest: arg_cong [where f = SerializeJSONProperty]
           simp add: SerializeJSONProperty_drop_undefined)

text \<open>
  A primitive whose \<open>indices\<close> are explicitly \<open>undefined\<close> and one without that field, a
  material with an \<open>undefined\<close> \<open>alphaCutoff\<close> and one without, and the pipeline arguments
  of a primitive without material, whose \<open>alphaMode\<close> is \<open>undefined\<close>, and arguments
  without that field.
\<close>

theorem stringify_equal_up_to_undefined_witness:
  "drop_undefined (JObj [(''attributes'', JObj [(''POSITION'', JNum 0)]), (''indices'', JUndefined)])
     = drop_undefined (JObj [(''attributes'', JObj [(''POSITION'', JNum 0)])])
   \<and> primitiveNodesKey (JObj [(''attributes'', JObj [(''POSITION'', JNum 0)]),
                              (''indices'', JUndefined)])
     = primitiveNodesKey (JObj [(''attributes'', JObj [(''POSITION'', JNum 0)])])
   \<and> drop_undefined (m_json (ex_material \<lparr> m_json := JObj [(''name'', JStr ''m''),
                                                           (''alphaCutoff'', JUndefined)] \<rparr>))
     = drop_undefined (m_json ex_material)
   \<and> materialKey ((ex_primitive 0)
        \<lparr> a_material := Some (ex_material \<lparr> m_json := JObj [(''name'', JStr ''m''),
                                                           (''alphaCutoff'', JUndefined)] \<rparr>) \<rparr>)
     = materialKey ((ex_primitive 1) \<lparr> a_material := Some ex_material \<rparr>)
   \<and> drop_undefined (pipelineState [(''primitive'', JObj [(''topology'', JStr ''triangle-list'')]),
                                     (''alphaMode'', JUndefined)]
                        (JObj [(''useNormal'', JBool False)]) (JObj [(''polyfill'', JBool False)]))
     = drop_undefined (pipelineState [(''primitive'', JObj [(''topology'', JStr ''triangle-list'')])]
                        (JObj [(''useNormal'', JBool False)]) (JObj [(''polyfill'', JBool False)]))
   \<and> pipelineKey [(''primitive'', JObj [(''topology'', JStr ''triangle-list'')]),
                  (''alphaMode'', JUndefined)]
        (JObj [(''useNormal'', JBool False)]) (JObj [(''polyfill'', JBool False)])
     = pipelineKey [(''primitive'', JObj [(''topology'', JStr ''triangle-list'')])]
        (JObj [(''useNormal'', JBool False)]) (JObj [(''polyfill'', JBool False)])"
  using stringify_equal_up_to_undefined
          [of "JObj [(''attributes'', JObj [(''POSITION'', JNum 0)]), (''indices'', JUndefined)]"
              "JObj [(''attributes'', JObj [(''POSITION'', JNum 0)])]"
              "ex_material \<lparr> m_json := JObj [(''name'', JStr ''m''), (''alphaCutoff'', JUndefined)] \<rparr>"
              ex_material "ex_primitive 0" "ex_primitive 1"
              "[(''primitive'', JObj [(''topology'', JStr ''triangle-list'')]),
                (''alphaMode'', JUndefined)]"
              "JObj [(''useNormal'', JBool False)]" "JObj [(''polyfill'', JBool False)]"
              "[(''primitive'', JObj [(''topology'', JStr ''triangle-list'')])]"
              "JObj [(''useNormal'', JBool False)]" "JObj [(''polyfill'', JBool False)]"]
  by (simp add: ex_material_def pipelineState_def)

text \<open>
  C2 as the specification states it fails. The primitives
  \<open>{attributes: {POSITION: 0}, material: 0}\<close> and \<open>{material: 0, attributes: {POSITION: 0}}\<close>
  are structurally equal up to field insertion order and have different group keys, so that
  two nodes that use them land in two groups; in the same way two materials and two lists
  of pipeline arguments that differ in the order of their fields have different keys.
\<close>

theorem stringify_field_order_counterexample:
  "structurally_equal (JObj [(''attributes'', JObj [(''POSITION'', JNum 0)]), (''material'', JNum 0)])
                      (JObj [(''material'', JNum 0), (''attributes'', JObj [(''POSITION'', JNum 0)])])
   \<and> primitiveNodesKey (JObj [(''attributes'', JObj [(''POSITION'', JNum 0)]), (''material'', JNum 0)])
     \<noteq> primitiveNodesKey (JObj [(''material'', JNum 0), (''attributes'', JObj [(''POSITION'', JNum 0)])])
   \<and> length (matrices (collect_instances
        (GLTFScene_new [ex_node 0 1, ex_node 1 2]
           [[ex_primitive 0],
            [(ex_primitive 0) \<lparr> p_json := JObj [(''material'', JNum 0),
                                               (''attributes'', JObj [(''POSITION'', JNum 0)])] \<rparr>]]
           None))) = 2
   \<and> structurally_equal (JObj [(''name'', JStr ''m''), (''doubleSided'', JBool True)])
                        (JObj [(''doubleSided'', JBool True), (''name'', JStr ''m'')])
   \<and> materialKey ((ex_primitive 0)
        \<lparr> a_material := Some (ex_material \<lparr> m_json := JObj [(''name'', JStr ''m''),
                                                           (''doubleSided'', JBool True)] \<rparr>) \<rparr>)
     \<noteq> materialKey ((ex_primitive 0)
        \<lparr> a_material := Some (ex_material \<lparr> m_json := JObj [(''doubleSided'', JBool True),
                                                           (''name'', JStr ''m'')] \<rparr>) \<rparr>)
   \<and> structurally_equal
        (pipelineState [(''alphaMode'', JStr ''OPAQUE''), (''doubleSided'', JBool False)]
           (JObj []) (JObj []))
        (pipelineState [(''doubleSided'', JBool False), (''alphaMode'', JStr ''OPAQUE'')]
           (JObj []) (JObj []))
   \<and> pipelineKey [(''alphaMode'', JStr ''OPAQUE''), (''doubleSided'', JBool False)] (JObj []) (JObj [])
     \<noteq> pipelineKey [(''doubleSided'', JBool False), (''alphaMode'', JStr ''OPAQUE'')] (JObj []) (JObj [])"
  by (simp add: structurally_equal_def eval_defs)

section \<open>Scenes on which \<open>build\<close> throws\<close>

text \<open>
  The material's \<open>build\<close> returns its shader under \<open>fragment\<close> as \<open>{code, context}\<close>,
  next to \<open>resources\<close> and \<open>bindGroupLayoutEntries\<close>, while the loop of
  \<open>GLTFScene.build\<close> looks for \<open>resources\<close>, \<open>bindGroupLayoutEntries\<close> and
  \<open>shader\<close> inside \<open>fragment\<close>. So \<open>shader\<close> is \<open>undefined\<close> and line 573 throws for
  every primitive that has a material; a primitive without material throws at the
  destructuring. The loop body never completes, and \<open>build\<close> returns only for a scene
  whose meshes have no primitive.
\<close>

lemma build_primitive_throws: "\<exists>e. build_primitive options nodeLayout tf a_primitive st = Inl e"
proof (cases "a_material a_primitive")
  case None
  then show ?thesis
    by (simp add: build_primitive_def GLTFPrimitive_build_def)
next
  case (Some m)
  show ?thesis
  proof (cases "buildVertex a_primitive")
    case (Inl e)
    then show ?thesis
      using Some by (simp add: build_primitive_def GLTFPrimitive_build_def)
  next
    case (Inr vertexRes)
    then show ?thesis
      using Some
      by (simp add: build_primitive_def GLTFPrimitive_build_def MeshPhysicalMaterial_build_def
            get_property_def GetV_def Let_def split_def)
  qed
qed

lemma forEachE_throws:
  assumes "\<And>x s. \<exists>e. f x s = Inl e" and "xs \<noteq> []"
  shows "\<exists>e. forEachE f xs s = Inl e"
proof (cases xs)
  case Nil
  then show ?thesis using assms(2) by simp
next
  case (Cons x xs')
  from assms(1) [of x s] obtain e where "f x s = Inl e" ..
  then show ?thesis using Cons by simp
qed

lemma forEachE_append:
  "forEachE f (xs @ ys) s = (case forEachE f xs s of Inl e \<Rightarrow> Inl e | Inr s' \<Rightarrow> forEachE f ys s')"
  by (induction xs arbitrary: s) (auto split: sum.splits)

lemma forEachE_concat:
  "forEachE (\<lambda>xs. forEachE f xs) xss s = forEachE f (concat xss) s"
  by (induction xss arbitrary: s) (auto simp add: forEachE_append split: sum.splits)

lemma build_never_returns:
  assumes "concat (a_meshs this) \<noteq> []"
  shows "\<exists>e. build options tf this = Inl e"
proof -
  have "\<exists>e. build_meshes options nl tf this mapped = Inl e" for nl mapped
    unfolding build_meshes_def forEachE_concat
    by (rule forEachE_throws [OF build_primitive_throws assms])
  then show ?thesis
    unfolding build_def Let_def by (metis sum.simps(5))
qed

lemma build_returns_without_primitives:
  assumes "build options tf this = Inr s"
  shows "concat (a_meshs this) = []"
  using build_never_returns [of this options tf] assms by auto

text \<open>
  C9. A scene whose only primitive has no material: \<open>GLTFPrimitive.build\<close> returns
  nothing for it and the destructuring of that result in \<open>GLTFScene.build\<close> throws a
  \<open>TypeError\<close>, which ends the build of the scene.
\<close>

theorem build_without_material_throws:
  "build ex_options ex_transforms
     (GLTFScene_new [ex_node 0 1] [[(ex_primitive 0) \<lparr> a_material := None \<rparr>]] None)
   = Inl TypeError"
  by (simp add: eval_defs)

text \<open>
  C1. Two nodes, each with a mesh of one primitive with a material: the loop over the meshes
  throws a \<open>TypeError\<close> at the first primitive (line 573), before
  \<open>setInstancePosForPrimitiveNodes\<close> (line 614) has assigned any range. \<open>build\<close> ends
  with that error and no group has a range.
\<close>

theorem build_with_material_throws:
  "build ex_options ex_transforms
     (GLTFScene_new [ex_node 0 1, ex_node 1 2] [[ex_primitive 0], [ex_primitive 1]] None)
   = Inl TypeError"
  by (simp add: eval_defs)

text \<open>
  C3. One mesh with two primitives that have the same material key, the same pipeline
  arguments and the same vertex shader context: \<open>build\<close> throws at the first of them,
  before any pipeline entry is set (line 603), so the render order gets no entry.
\<close>

theorem build_shared_material_throws:
  "materialKey (ex_primitive 0) = materialKey (ex_primitive 1)
   \<and> buildVertex (ex_primitive 0) = buildVertex (ex_primitive 1)
   \<and> build ex_options ex_transforms
       (GLTFScene_new [ex_node 0 1] [[ex_primitive 0, ex_primitive 1]] None)
     = Inl TypeError"
  by (simp add: eval_defs)

text \<open>
  C4. The scene of three nodes that share one primitive: \<open>build\<close> throws. With a fourth
  node, on the scene as the first \<open>build\<close> left it (lines 472-526 have assigned the
  layout and the instance bind group, the render order is still empty) and the device nine
  objects further, \<open>build\<close> throws again: no range \<open>{first: 0, count: 4}\<close> is produced.
\<close>

theorem rebuild_throws:
  "build ex_options ex_transforms
     (GLTFScene_new [ex_node 0 1, ex_node 0 2, ex_node 0 3] [[ex_primitive 0]] None)
   = Inl TypeError
   \<and> build (ex_options \<lparr> options_device := 9 \<rparr>) ex_transforms
       ((GLTFScene_new [ex_node 0 1, ex_node 0 2, ex_node 0 3, ex_node 0 4] [[ex_primitive 0]] None)
          \<lparr> nodeBindGroupLayout := Some 1, instanceBindGroup := Some 1,
            instanceBindGroupIndex := Some 1 \<rparr>)
     = Inl TypeError"
  by (simp add: eval_defs)


section \<open>Writing the instance blocks\<close>

lemma length_transform_block: "length (transform_block tf n) = 32"
  by (simp add: transform_block_def length_Rep_Mat4)

lemma length_concat_blocks: "length (concat (map (transform_block tf) ns)) = 32 * length ns"
  by (induction ns) (simp_all add: length_transform_block)

lemma write_one_fits:
  assumes fit: "32 * k + 32 \<le> length ab"
  shows "TypedArray_set ab (Rep_Mat4 (worldMatrix (tf n))) (k * 32)
           = Inr (take (32 * k) ab @ Rep_Mat4 (worldMatrix (tf n)) @ drop (32 * k + 16) ab)"
    and "TypedArray_set (take (32 * k) ab @ Rep_Mat4 (worldMatrix (tf n)) @ drop (32 * k + 16) ab)
           (Rep_Mat4 (worldNormalMatrix (tf n))) (k * 32 + 16)
           = Inr (take (32 * k) ab @ transform_block tf n @ drop (32 * k + 32) ab)"
  using fit
  by (simp_all add: TypedArray_set_def length_Rep_Mat4 transform_block_def mult.commute min_def add.commute)

lemma write_one_overflow:
  assumes "\<not> 32 * k + 32 \<le> length ab"
  shows "(case TypedArray_set ab (Rep_Mat4 (worldMatrix (tf n))) (k * 32) of
            Inl e \<Rightarrow> Inl e
          | Inr ab1 \<Rightarrow>
             (case TypedArray_set ab1 (Rep_Mat4 (worldNormalMatrix (tf n))) (k * 32 + 16) of
                Inl e \<Rightarrow> Inl e
              | Inr ab2 \<Rightarrow> f ab2)) = Inl RangeError"
  using assms
  by (auto simp add: TypedArray_set_def length_Rep_Mat4 min_def split: sum.splits)

lemma write_instances_eq:
  "write_instances tf ns k ab =
     (if ns = [] \<or> 32 * (k + length ns) \<le> length ab
      then Inr (take (32 * k) ab @ concat (map (transform_block tf) ns)
                @ drop (32 * (k + length ns)) ab)
      else Inl RangeError)"
proof (induction ns arbitrary: k ab)
  case Nil
  show ?case by simp
next
  case (Cons n ns)
  show ?case
  proof (cases "32 * k + 32 \<le> length ab")
    case False
    then show ?thesis
      using write_one_overflow [where k = k and ab = ab and tf = tf and n = n and f = "write_instances tf ns (k + 1)"] by simp
  next
    case True
    let ?ab2 = "take (32 * k) ab @ transform_block tf n @ drop (32 * k + 32) ab"
    have step: "write_instances tf (n # ns) k ab = write_instances tf ns (k + 1) ?ab2"
      using write_one_fits [OF True, where tf = tf and n = n] by simp
    have len: "length ?ab2 = length ab"
      using True by (simp add: length_transform_block)
    have tk: "take (32 * (k + 1)) ?ab2 = take (32 * k) ab @ transform_block tf n"
      using True by (simp add: length_transform_block)
    have dr: "\<And>m. drop (32 * (k + 1 + m)) ?ab2 = drop (32 * (k + 1 + m)) ab"
      using True by (simp add: length_transform_block ac_simps)
    show ?thesis
      unfolding step Cons.IH len tk dr
      using True by (auto simp add: add.assoc)
  qed
qed


section \<open>The walk over the primitives\<close>

lemma update_primitive_Inr:
  assumes "update_primitive tf p pinst = Inr pinst'" and "arrayBuffer pinst = Some ab"
  shows "pinst' = pinst \<lparr> arrayBuffer :=
                     Some (take (32 * offset pinst) ab
                           @ concat (map (transform_block tf) (group_nodes pinst p))
                           @ drop (32 * (offset pinst + length (group_nodes pinst p))) ab),
                   offset := offset pinst + length (group_nodes pinst p) \<rparr>"
    and "group_nodes pinst p = [] \<or> 32 * (offset pinst + length (group_nodes pinst p)) \<le> length ab"
    and "map_of (matrices pinst) (primitiveNodesKey (p_json p)) \<noteq> None"
  using assms
  by (auto simp add: update_primitive_def setInstancePosForPrimitiveNodes_def write_instances_eq
        group_nodes_def split: option.splits if_splits)

lemma update_primitive_ok:
  assumes "arrayBuffer pinst = Some ab"
    and "map_of (matrices pinst) (primitiveNodesKey (p_json p)) \<noteq> None"
    and "group_nodes pinst p = [] \<or> 32 * (offset pinst + length (group_nodes pinst p)) \<le> length ab"
  shows "update_primitive tf p pinst
         = Inr (pinst \<lparr> arrayBuffer :=
                     Some (take (32 * offset pinst) ab
                           @ concat (map (transform_block tf) (group_nodes pinst p))
                           @ drop (32 * (offset pinst + length (group_nodes pinst p))) ab),
                   offset := offset pinst + length (group_nodes pinst p) \<rparr>)"
  using assms
  by (auto simp add: update_primitive_def setInstancePosForPrimitiveNodes_def write_instances_eq
        group_nodes_def split: option.splits if_splits)

lemma group_nodes_cong:
  "matrices p1 = matrices p2 \<Longrightarrow> group_nodes p1 = group_nodes p2"
  by (rule ext) (simp add: group_nodes_def)

lemma splice_twice:
  assumes "B1 = [] \<or> a + length B1 \<le> length ab"
  shows "take (a + length B1) (take a ab @ B1 @ drop (a + length B1) ab) @ B2
           @ drop (a + length B1 + length B2) (take a ab @ B1 @ drop (a + length B1) ab)
         = take a ab @ (B1 @ B2) @ drop (a + length (B1 @ B2)) ab"
proof (cases "B1 = []")
  case True
  then show ?thesis by simp
next
  case False
  then have fit: "a + length B1 \<le> length ab"
    using assms by simp
  have "a < length ab"
    using False fit by (cases B1) auto
  then show ?thesis using fit by (simp add: min_def ac_simps)
qed

lemma walk_Inr:
  assumes "forEachE (update_primitive tf) ps pinst = Inr pinst'" and "arrayBuffer pinst = Some ab"
  shows "pinst' = pinst \<lparr> arrayBuffer :=
                     Some (take (32 * offset pinst) ab
                           @ concat (map (transform_block tf) (concat (map (group_nodes pinst) ps)))
                           @ drop (32 * (offset pinst + length (concat (map (group_nodes pinst) ps)))) ab),
                   offset := offset pinst + length (concat (map (group_nodes pinst) ps)) \<rparr>"
  using assms
proof (induction ps arbitrary: pinst ab)
  case Nil
  then show ?case by simp
next
  case (Cons p ps)
  let ?g = "group_nodes pinst p"
  let ?B1 = "concat (map (transform_block tf) ?g)"
  let ?ab1 = "take (32 * offset pinst) ab @ ?B1 @ drop (32 * (offset pinst + length ?g)) ab"
  let ?p1 = "pinst \<lparr> arrayBuffer := Some ?ab1, offset := offset pinst + length ?g \<rparr>"
  from Cons.prems obtain p1 where p1: "update_primitive tf p pinst = Inr p1"
    and rest: "forEachE (update_primitive tf) ps p1 = Inr pinst'"
    by (auto split: sum.splits)
  have p1_eq: "p1 = ?p1"
    and fit: "?g = [] \<or> 32 * (offset pinst + length ?g) \<le> length ab"
    using update_primitive_Inr [OF p1 Cons.prems(2)] by simp_all
  have gn: "group_nodes ?p1 = group_nodes pinst"
    by (rule group_nodes_cong) simp
  have ab1: "arrayBuffer ?p1 = Some ?ab1" by simp
  have fit': "?B1 = [] \<or> 32 * offset pinst + length ?B1 \<le> length ab"
    using fit by (auto simp add: length_concat_blocks)
  note IH = Cons.IH [OF rest [unfolded p1_eq] ab1, unfolded gn]
  let ?rest = "concat (map (group_nodes pinst) ps)"
  let ?B2 = "concat (map (transform_block tf) ?rest)"
  have "take (32 * offset pinst + length ?B1) ?ab1 @ ?B2
          @ drop (32 * offset pinst + length ?B1 + length ?B2) ?ab1
        = take (32 * offset pinst) ab @ (?B1 @ ?B2)
          @ drop (32 * offset pinst + length (?B1 @ ?B2)) ab"
    using splice_twice [OF fit', of ?B2]
    by (simp add: length_concat_blocks add_mult_distrib2)
  then show ?case
    unfolding IH
    by (simp add: length_concat_blocks add_mult_distrib2 add.assoc)
qed

lemma walk_succeeds:
  assumes "forEachE (update_primitive tf) ps pinst = Inr pinst'"
    and "arrayBuffer pinst = Some ab" and "length ab2 = length ab"
  shows "\<exists>q. forEachE (update_primitive tf2) ps (pinst \<lparr> arrayBuffer := Some ab2 \<rparr>) = Inr q"
  using assms
proof (induction ps arbitrary: pinst ab ab2)
  case Nil
  then show ?case by simp
next
  case (Cons p ps)
  let ?g = "group_nodes pinst p"
  from Cons.prems obtain p1 where p1: "update_primitive tf p pinst = Inr p1"
    and rest: "forEachE (update_primitive tf) ps p1 = Inr pinst'"
    by (auto split: sum.splits)
  note facts = update_primitive_Inr [OF p1 Cons.prems(2)]
  let ?q = "pinst \<lparr> arrayBuffer := Some ab2 \<rparr>"
  have gq: "group_nodes ?q = group_nodes pinst"
    by (rule group_nodes_cong) simp
  let ?ab2' = "take (32 * offset pinst) ab2
                @ concat (map (transform_block tf2) (group_nodes pinst p))
                @ drop (32 * (offset pinst + length (group_nodes pinst p))) ab2"
  have "update_primitive tf2 p ?q
        = Inr (?q \<lparr> arrayBuffer :=
                     Some (take (32 * offset ?q) ab2
                           @ concat (map (transform_block tf2) (group_nodes ?q p))
                           @ drop (32 * (offset ?q + length (group_nodes ?q p))) ab2),
                   offset := offset ?q + length (group_nodes ?q p) \<rparr>)"
    by (rule update_primitive_ok) (use facts Cons.prems(3) in \<open>simp_all add: gq\<close>)
  then have step: "update_primitive tf2 p ?q = Inr (p1 \<lparr> arrayBuffer := Some ?ab2' \<rparr>)"
    by (simp add: gq facts(1))
  have len2: "length ?ab2' = length ab2"
  proof (cases "group_nodes pinst p = []")
    case True
    then show ?thesis by simp
  next
    case False
    then have fit: "32 * (offset pinst + length (group_nodes pinst p)) \<le> length ab2"
      using facts(2) Cons.prems(3) by simp
    have "32 * offset pinst < length ab2"
      using False fit by (cases "group_nodes pinst p") auto
    then show ?thesis using fit by (simp add: length_concat_blocks min_def)
  qed
  obtain ab1 where ab1: "arrayBuffer p1 = Some ab1" and len1: "length ab1 = length ab"
  proof (cases "group_nodes pinst p = []")
    case True
    then show ?thesis using that facts(1) by simp
  next
    case False
    then have fit: "32 * (offset pinst + length (group_nodes pinst p)) \<le> length ab"
      using facts(2) by simp
    have "32 * offset pinst < length ab"
      using False fit by (cases "group_nodes pinst p") auto
    then show ?thesis using that facts(1) fit by (simp add: length_concat_blocks min_def)
  qed
  have "\<exists>q. forEachE (update_primitive tf2) ps (p1 \<lparr> arrayBuffer := Some ?ab2' \<rparr>) = Inr q"
    by (rule Cons.IH [OF rest ab1]) (simp only: len1 len2 Cons.prems(3))
  then show ?case using step by simp
qed


section \<open>Refreshing the instance buffer\<close>


lemma block_matrices:
  assumes "take 32 (drop (32 * i) xs) = transform_block tf n"
  shows "take 16 (drop (32 * i) xs) = Rep_Mat4 (worldMatrix (tf n))"
    and "take 16 (drop (32 * i + 16) xs) = Rep_Mat4 (worldNormalMatrix (tf n))"
proof -
  have "take 16 (drop (32 * i) xs) = take 16 (take 32 (drop (32 * i) xs))"
    by simp
  then show "take 16 (drop (32 * i) xs) = Rep_Mat4 (worldMatrix (tf n))"
    using assms by (simp add: transform_block_def length_Rep_Mat4)
  have "take 16 (drop (32 * i + 16) xs) = take 16 (drop 16 (take 32 (drop (32 * i) xs)))"
    by (simp add: drop_take add.commute)
  then show "take 16 (drop (32 * i + 16) xs) = Rep_Mat4 (worldNormalMatrix (tf n))"
    using assms by (simp add: transform_block_def length_Rep_Mat4)
qed

lemma walk_length:
  assumes "forEachE (update_primitive tf) ps pinst = Inr pinst'" and "arrayBuffer pinst = Some ab"
  shows "\<exists>ab'. arrayBuffer pinst' = Some ab' \<and> length ab' = length ab"
  using assms
proof (induction ps arbitrary: pinst ab)
  case Nil
  then show ?case by simp
next
  case (Cons p ps)
  from Cons.prems obtain p1 where p1: "update_primitive tf p pinst = Inr p1"
    and rest: "forEachE (update_primitive tf) ps p1 = Inr pinst'"
    by (auto split: sum.splits)
  note facts = update_primitive_Inr [OF p1 Cons.prems(2)]
  obtain ab1 where ab1: "arrayBuffer p1 = Some ab1" and len1: "length ab1 = length ab"
  proof (cases "group_nodes pinst p = []")
    case True
    then show ?thesis using that facts(1) by simp
  next
    case False
    then have fit: "32 * (offset pinst + length (group_nodes pinst p)) \<le> length ab"
      using facts(2) by simp
    have "32 * offset pinst < length ab"
      using False fit by (cases "group_nodes pinst p") auto
    then show ?thesis using that facts(1) fit by (simp add: length_concat_blocks min_def)
  qed
  show ?case using Cons.IH [OF rest ab1] len1 by simp
qed

lemma walk_from_start:
  assumes "forEachE (update_primitive tf) ps (pinst \<lparr> offset := 0 \<rparr>) = Inr pinst'"
    and "arrayBuffer pinst = Some ab"
  shows "pinst' = pinst \<lparr> arrayBuffer :=
                     Some (concat (map (transform_block tf) (concat (map (group_nodes pinst) ps)))
                           @ drop (32 * length (concat (map (group_nodes pinst) ps))) ab),
                   offset := length (concat (map (group_nodes pinst) ps)) \<rparr>"
    and "length (concat (map (transform_block tf) (concat (map (group_nodes pinst) ps)))
                 @ drop (32 * length (concat (map (group_nodes pinst) ps))) ab) = length ab"
proof -
  have gn: "group_nodes (pinst \<lparr> offset := 0 \<rparr>) = group_nodes pinst"
    by (rule group_nodes_cong) simp
  have ab0: "arrayBuffer (pinst \<lparr> offset := 0 \<rparr>) = Some ab"
    using assms(2) by simp
  show eq: "pinst' = pinst \<lparr> arrayBuffer :=
                     Some (concat (map (transform_block tf) (concat (map (group_nodes pinst) ps)))
                           @ drop (32 * length (concat (map (group_nodes pinst) ps))) ab),
                   offset := length (concat (map (group_nodes pinst) ps)) \<rparr>"
    using walk_Inr [OF assms(1) ab0] by (simp add: gn)
  show "length (concat (map (transform_block tf) (concat (map (group_nodes pinst) ps)))
                 @ drop (32 * length (concat (map (group_nodes pinst) ps))) ab) = length ab"
    using walk_length [OF assms(1) ab0] unfolding eq by simp
qed

lemma walk_None:
  "arrayBuffer pinst = None \<Longrightarrow> forEachE (update_primitive tf) ps pinst = Inr pinst"
  by (induction ps) (simp_all add: update_primitive_def setInstancePosForPrimitiveNodes_def)

lemma instance_order_update:
  assumes "primitiveInstances s' = Some pinst'" and "primitiveInstances s = Some pinst"
    and "matrices pinst' = matrices pinst" and "a_meshs s' = a_meshs s"
  shows "instance_order s' = instance_order s"
  using assms group_nodes_cong [of pinst' pinst] by (simp add: instance_order_def)



lemma walk_ok:
  assumes "arrayBuffer pinst = Some ab"
    and "\<forall>p \<in> set ps. map_of (matrices pinst) (primitiveNodesKey (p_json p)) \<noteq> None"
    and "32 * (offset pinst + length (concat (map (group_nodes pinst) ps))) \<le> length ab"
  shows "\<exists>q. forEachE (update_primitive tf) ps pinst = Inr q"
  using assms
proof (induction ps arbitrary: pinst ab)
  case Nil
  then show ?case by simp
next
  case (Cons p ps)
  let ?ab1 = "take (32 * offset pinst) ab
              @ concat (map (transform_block tf) (group_nodes pinst p))
              @ drop (32 * (offset pinst + length (group_nodes pinst p))) ab"
  let ?pinst1 = "pinst \<lparr> arrayBuffer := Some ?ab1,
                         offset := offset pinst + length (group_nodes pinst p) \<rparr>"
  have fit: "32 * (offset pinst + length (group_nodes pinst p)) \<le> length ab"
    using Cons.prems(3) by simp
  have step: "update_primitive tf p pinst = Inr ?pinst1"
    by (rule update_primitive_ok [OF Cons.prems(1)]) (use Cons.prems(2) fit in simp_all)
  have gn: "group_nodes ?pinst1 = group_nodes pinst"
    by (rule group_nodes_cong) simp
  have len: "length ?ab1 = length ab"
    using fit by (simp add: length_concat_blocks)
  have "\<exists>q. forEachE (update_primitive tf) ps ?pinst1 = Inr q"
  proof (rule Cons.IH)
    show "arrayBuffer ?pinst1 = Some ?ab1" by simp
    show "\<forall>p \<in> set ps. map_of (matrices ?pinst1) (primitiveNodesKey (p_json p)) \<noteq> None"
      using Cons.prems(2) by simp
    show "32 * (offset ?pinst1 + length (concat (map (group_nodes ?pinst1) ps))) \<le> length ?ab1"
      unfolding gn len using Cons.prems(3) by (simp add: ac_simps)
  qed
  then show ?case using step by simp
qed


lemma writeBuffer_idem: "writeBuffer (writeBuffer b data) data = writeBuffer b data"
  by (simp add: writeBuffer_def)


lemma updateBuffers_Inr:
  assumes pinst: "primitiveInstances s = Some pinst" and ab: "arrayBuffer pinst = Some ab"
    and b: "instanceBuffer s = Some b" and dev: "device s = Some d"
    and walk0: "forEachE (update_primitive tf0) (concat (a_meshs s)) (pinst \<lparr> offset := 0 \<rparr>) = Inr q"
  shows "updateBuffers tf s
         = Inr (s \<lparr> primitiveInstances :=
                      Some (pinst \<lparr> arrayBuffer :=
                                Some (concat (map (transform_block tf) (instance_order s))
                                      @ drop (32 * length (instance_order s)) ab),
                              offset := length (instance_order s) \<rparr>),
                    instanceBuffer :=
                      Some (writeBuffer b
                              (concat (map (transform_block tf) (instance_order s))
                               @ drop (32 * length (instance_order s)) ab)) \<rparr>)"
    and "length (concat (map (transform_block tf) (instance_order s))
                 @ drop (32 * length (instance_order s)) ab) = length ab"
proof -
  let ?ps = "concat (a_meshs s)"
  have ab0: "arrayBuffer (pinst \<lparr> offset := 0 \<rparr>) = Some ab"
    using ab by simp
  have same: "pinst \<lparr> offset := 0, arrayBuffer := Some ab \<rparr> = pinst \<lparr> offset := 0 \<rparr>"
    using ab by simp
  obtain q' where walk: "forEachE (update_primitive tf) ?ps (pinst \<lparr> offset := 0 \<rparr>) = Inr q'"
    using walk_succeeds [OF walk0 ab0, of ab tf] same by auto
  have order: "instance_order s = concat (map (group_nodes pinst) ?ps)"
    by (simp add: instance_order_def pinst)
  note w = walk_from_start [OF walk ab, folded order]
  show len: "length (concat (map (transform_block tf) (instance_order s))
                 @ drop (32 * length (instance_order s)) ab) = length ab"
    by (rule w(2))
  show "updateBuffers tf s
         = Inr (s \<lparr> primitiveInstances :=
                      Some (pinst \<lparr> arrayBuffer :=
                                Some (concat (map (transform_block tf) (instance_order s))
                                      @ drop (32 * length (instance_order s)) ab),
                              offset := length (instance_order s) \<rparr>),
                    instanceBuffer :=
                      Some (writeBuffer b
                              (concat (map (transform_block tf) (instance_order s))
                               @ drop (32 * length (instance_order s)) ab)) \<rparr>)"
    unfolding updateBuffers_def forEachE_concat
    by (simp add: pinst b dev walk w(1) del: length_append)
qed

lemma updateBuffers_idem:
  assumes "updateBuffers tf s = Inr s1"
  shows "updateBuffers tf s1 = Inr s1"
    and "\<exists>pinst ab. primitiveInstances s1 = Some pinst \<and> arrayBuffer pinst = Some ab"
proof -
  let ?ps = "concat (a_meshs s)"
  from assms obtain pinst q b ab1 d where pinst: "primitiveInstances s = Some pinst"
    and walk: "forEachE (update_primitive tf) ?ps (pinst \<lparr> offset := 0 \<rparr>) = Inr q"
    and b: "instanceBuffer s = Some b" and ab1: "arrayBuffer q = Some ab1"
    and dev: "device s = Some d"
    by (auto simp add: updateBuffers_def forEachE_concat split: option.splits sum.splits)
  obtain ab where ab: "arrayBuffer pinst = Some ab"
  proof (cases "arrayBuffer pinst")
    case None
    then have "forEachE (update_primitive tf) ?ps (pinst \<lparr> offset := 0 \<rparr>) = Inr (pinst \<lparr> offset := 0 \<rparr>)"
      by (intro walk_None) simp
    then show ?thesis using walk ab1 None by simp
  next
    case (Some ab)
    then show ?thesis using that by simp
  qed
  let ?n = "length (instance_order s)"
  let ?B = "concat (map (transform_block tf) (instance_order s))"
  let ?ab1 = "?B @ drop (32 * ?n) ab"
  have order: "instance_order s = concat (map (group_nodes pinst) ?ps)"
    by (simp add: instance_order_def pinst)
  note w = walk_from_start [OF walk ab, folded order]
  have len: "length ?ab1 = length ab"
    by (rule w(2))
  let ?pinst1 = "pinst \<lparr> arrayBuffer := Some ?ab1, offset := ?n \<rparr>"
  let ?b1 = "writeBuffer b ?ab1"
  have s1: "s1 = s \<lparr> primitiveInstances := Some ?pinst1, instanceBuffer := Some ?b1 \<rparr>"
    using updateBuffers_Inr(1) [OF pinst ab b dev walk, of tf] assms by simp
  have pinst1: "primitiveInstances s1 = Some ?pinst1" and b1: "instanceBuffer s1 = Some ?b1"
    and meshs1: "a_meshs s1 = a_meshs s" and dev1: "device s1 = Some d"
    by (simp_all add: s1 dev)
  have ab1': "arrayBuffer ?pinst1 = Some ?ab1" by simp
  have order1: "instance_order s1 = instance_order s"
    by (rule instance_order_update [OF pinst1 pinst]) (simp_all add: meshs1)
  have same: "pinst \<lparr> offset := 0, arrayBuffer := Some ?ab1 \<rparr> = ?pinst1 \<lparr> offset := 0 \<rparr>"
    by simp
  have ab0: "arrayBuffer (pinst \<lparr> offset := 0 \<rparr>) = Some ab"
    using ab by simp
  obtain q1 where walk1: "forEachE (update_primitive tf) (concat (a_meshs s1)) (?pinst1 \<lparr> offset := 0 \<rparr>) = Inr q1"
    using walk_succeeds [OF walk ab0, of ?ab1 tf] len same meshs1 by auto
  have lenB: "length ?B = 32 * ?n"
    by (simp add: length_concat_blocks)
  have again: "?B @ drop (32 * ?n) ?ab1 = ?ab1"
    using lenB by simp
  show "updateBuffers tf s1 = Inr s1"
    unfolding updateBuffers_Inr(1) [OF pinst1 ab1' b1 dev1 walk1, of tf] order1 again
      writeBuffer_idem
    by (simp add: s1)
  show "\<exists>pinst ab. primitiveInstances s1 = Some pinst \<and> arrayBuffer pinst = Some ab"
    using pinst1 ab1' by blast
qed

section \<open>Scenes that have their instances\<close>

lemma instances_readyD:
  assumes "instances_ready this"
  shows "\<exists>pinst ab b d.
           primitiveInstances this = Some pinst \<and> arrayBuffer pinst = Some ab
         \<and> instanceBuffer this = Some b \<and> device this = Some d
         \<and> 4 * length ab = size' b \<and> length (contents b) = length ab
         \<and> (\<forall>p \<in> set (concat (a_meshs this)).
               map_of (matrices pinst) (primitiveNodesKey (p_json p)) \<noteq> None)
         \<and> 32 * length (instance_order this) \<le> length ab"
  using assms unfolding instances_ready_def
  by (auto simp add: list_all_iff split: option.splits)

lemma ready_walk:
  assumes "primitiveInstances this = Some pinst" and "arrayBuffer pinst = Some ab"
    and "\<forall>p \<in> set (concat (a_meshs this)).
           map_of (matrices pinst) (primitiveNodesKey (p_json p)) \<noteq> None"
    and "32 * length (instance_order this) \<le> length ab"
  shows "\<exists>q. forEachE (update_primitive tf) (concat (a_meshs this)) (pinst \<lparr> offset := 0 \<rparr>) = Inr q"
proof (rule walk_ok)
  have gn: "group_nodes (pinst \<lparr> offset := 0 \<rparr>) = group_nodes pinst"
    by (rule group_nodes_cong) simp
  show "arrayBuffer (pinst \<lparr> offset := 0 \<rparr>) = Some ab"
    using assms(2) by simp
  show "\<forall>p \<in> set (concat (a_meshs this)).
          map_of (matrices (pinst \<lparr> offset := 0 \<rparr>)) (primitiveNodesKey (p_json p)) \<noteq> None"
    using assms(3) by simp
  show "32 * (offset (pinst \<lparr> offset := 0 \<rparr>)
              + length (concat (map (group_nodes (pinst \<lparr> offset := 0 \<rparr>)) (concat (a_meshs this)))))
        \<le> length ab"
    unfolding gn using assms(1,4) by (simp add: instance_order_def)
qed

text \<open>
  A scene on which \<open>build\<close> has returned has its instances, provided its device is set.
\<close>

lemma built_ready:
  assumes "build options tf this = Inr s" and "device this = Some d"
  shows "instances_ready s"
proof -
  have none: "concat (a_meshs this) = []"
    by (rule build_returns_without_primitives [OF assms(1)])
  have loop: "build_meshes options nl tf this mapped
              = Inr \<lparr> materialCache = [], l_primitiveInstances = mapped,
                      l_device = options_device options + 2, self = this \<rparr>" for nl mapped
    unfolding build_meshes_def forEachE_concat none by simp
  have s: "s = this
               \<lparr> nodeBindGroupLayout := Some (cached_bindGroupLayout_get options nodeLayoutEntries),
                 instanceBindGroup := Some (options_device options + 1),
                 instanceBindGroupIndex := Some 1,
                 primitiveInstances :=
                   Some ((collect_instances this)
                           \<lparr> offset := 0,
                             arrayBuffer :=
                               Some (Float32Array_new (32 * total' (collect_instances this))) \<rparr>),
                 instanceBuffer :=
                   Some \<lparr> handle = options_device options,
                          size' = 128 * total' (collect_instances this),
                          contents = Float32Array_new (32 * total' (collect_instances this)) \<rparr> \<rparr>"
    using assms(1) unfolding build_def Let_def loop by simp
  show ?thesis
    unfolding instances_ready_def instance_order_def s
    by (simp add: assms(2) none Float32Array_new_def)
qed

section \<open>Any number of refreshes\<close>



lemma ex_built_scene3_ready: "instances_ready ex_built_scene3"
  by (simp add: instances_ready_def instance_order_def group_nodes_def eval_defs)


lemma ex_nodes_only_builds:
  "\<exists>s. build ex_options ex_transforms
          (GLTFScene_new [GLTFNode None 1 [GLTFNode None 2 []]] [] (Some 0)) = Inr s"
  by (simp add: eval_defs)

text \<open>
  C5. On a scene that has its instances (in particular on a scene on which \<open>build\<close> has
  returned and whose device is set) \<open>updateBuffers\<close> returns; and whenever a call of
  \<open>updateBuffers\<close> returns, on any scene, a second call with the same transforms returns
  the very same scene state: the staging array \<open>arrayBuffer\<close> and the uploaded buffer hold
  the same bytes after the second call as after the first.
\<close>

theorem updateBuffers_twice_same_bytes:
  "(instances_ready this \<longrightarrow> (\<exists>s1. updateBuffers tf this = Inr s1))
   \<and> (\<forall>s1. updateBuffers tf this = Inr s1 \<longrightarrow>
         updateBuffers tf s1 = Inr s1
         \<and> (\<exists>pinst ab. primitiveInstances s1 = Some pinst \<and> arrayBuffer pinst = Some ab))"
proof (intro conjI impI allI)
  assume "instances_ready this"
  from instances_readyD [OF this] obtain pinst ab b d where
    f: "primitiveInstances this = Some pinst" "arrayBuffer pinst = Some ab"
       "instanceBuffer this = Some b" "device this = Some d"
    and g: "\<forall>p \<in> set (concat (a_meshs this)).
               map_of (matrices pinst) (primitiveNodesKey (p_json p)) \<noteq> None"
           "32 * length (instance_order this) \<le> length ab"
    by blast
  from ready_walk [OF f(1,2) g, of tf] obtain q where
    "forEachE (update_primitive tf) (concat (a_meshs this)) (pinst \<lparr> offset := 0 \<rparr>) = Inr q" ..
  from updateBuffers_Inr(1) [OF f this, of tf]
  show "\<exists>s1. updateBuffers tf this = Inr s1" by blast
next
  fix s1 assume "updateBuffers tf this = Inr s1"
  then show "updateBuffers tf s1 = Inr s1"
    and "\<exists>pinst ab. primitiveInstances s1 = Some pinst \<and> arrayBuffer pinst = Some ab"
    by (rule updateBuffers_idem)+
qed

text \<open>
  The scene of three nodes that share one primitive, in the state of scenario 1: the first
  call writes the three blocks, the second leaves every byte as it is. And a scene of two
  nodes without mesh, on which \<open>build\<close> returns.
\<close>

theorem updateBuffers_twice_same_bytes_witness:
  "\<exists>s1 s0 s2.
     instances_ready ex_built_scene3
   \<and> updateBuffers ex_transforms ex_built_scene3 = Inr s1
   \<and> updateBuffers ex_transforms s1 = Inr s1
   \<and> (\<exists>pinst ab b. primitiveInstances s1 = Some pinst \<and> arrayBuffer pinst = Some ab
         \<and> instanceBuffer s1 = Some b \<and> contents b = ab
         \<and> take 32 (drop 32 ab) = replicate 16 2 @ replicate 16 102)
   \<and> build ex_options ex_transforms
       (GLTFScene_new [GLTFNode None 1 [GLTFNode None 2 []]] [] (Some 0)) = Inr s0
   \<and> instances_ready s0
   \<and> updateBuffers ex_transforms s0 = Inr s2
   \<and> updateBuffers ex_transforms s2 = Inr s2"
proof -
  note thm3 = updateBuffers_twice_same_bytes [of ex_built_scene3 ex_transforms]
  from thm3 ex_built_scene3_ready obtain s1 where
    s1: "updateBuffers ex_transforms ex_built_scene3 = Inr s1" by blast
  from thm3 s1 have again1: "updateBuffers ex_transforms s1 = Inr s1" by blast
  have blocks: "\<exists>pinst ab b. primitiveInstances s1 = Some pinst \<and> arrayBuffer pinst = Some ab
         \<and> instanceBuffer s1 = Some b \<and> contents b = ab
         \<and> take 32 (drop 32 ab) = replicate 16 2 @ replicate 16 102"
    using s1
    by (auto simp add: updateBuffers_def update_primitive_def writeBuffer_def eval_defs)
  obtain s0 where s0: "build ex_options ex_transforms
       (GLTFScene_new [GLTFNode None 1 [GLTFNode None 2 []]] [] (Some 0)) = Inr s0"
    using ex_nodes_only_builds by blast
  have r0: "instances_ready s0"
    by (rule built_ready [OF s0]) (simp add: GLTFScene_new_def)
  note thm0 = updateBuffers_twice_same_bytes [of s0 ex_transforms]
  from thm0 r0 obtain s2 where s2: "updateBuffers ex_transforms s0 = Inr s2" by blast
  from thm0 s2 have again2: "updateBuffers ex_transforms s2 = Inr s2" by blast
  show ?thesis
    apply (rule exI [of _ s1], rule exI [of _ s0], rule exI [of _ s2])
    by (intro conjI ex_built_scene3_ready s1 again1 blocks s0 r0 s2 again2)
qed



section \<open>Replaying a render order\<close>



lemma concat_mapE_Inr:
  assumes "concat_mapE f xs = Inr ys"
  shows "\<forall>x \<in> set xs. \<exists>y. f x = Inr y"
  using assms by (induction xs arbitrary: ys) (auto split: sum.splits)


lemma render_buffer_fails:
  assumes "view (accessor (snd ib)) = None"
  shows "render_buffer ib = Inl TypeError"
  using assms by (simp add: render_buffer_def)




















section \<open>Faults of the loader\<close>

lemma mapE_Inr_iff: "mapE f xs = Inr ys \<longleftrightarrow> list_all2 (\<lambda>x y. f x = Inr y) xs ys"
proof (induction xs arbitrary: ys)
  case Nil
  then show ?case by auto
next
  case (Cons x xs)
  show ?case
    by (cases ys) (auto simp add: Cons.IH [symmetric] split: sum.splits)
qed

lemma mapE_Inl:
  "mapE f xs = Inl e \<Longrightarrow> \<exists>x \<in> set xs. f x = Inl e"
  by (induction xs) (auto split: sum.splits)

lemma mapE_fails:
  "x \<in> set xs \<Longrightarrow> f x = Inl e \<Longrightarrow> \<exists>e'. mapE f xs = Inl e'"
  by (induction xs) (auto split: sum.splits)

lemmas load_defs = load_meshes_def load_primitive_def primitive_mode_def TRIANGLES_def
  in_GLTFRenderMode_def attribute_accessors_def array_get_def GLTFPrimitive_new_def
  setPrimitive_def sort_attributeAccessors_def add_attribute_def byteStride_def vertexType_def
  GLTFTypeNumber_def GLTFComponentType_def GLTFComponentTypeSize_def
  GLTFComponentType2GPUVertexFormat_def finish_layouts_def first_shaderLocation_def
  first_offset_def primitive_json_def ex_ShaderLocation_def

text \<open>The example primitive is what the loader makes of its JSON.\<close>

lemma ex_primitive_loaded:
  "load_primitive ex_ShaderLocation [ex_accessor] [ex_material]
     [Attributes [(''POSITION'', 0)], Material 0] = Inr (ex_primitive 0)"
  by (simp add: load_defs eval_defs)

lemma load_primitive_mode:
  assumes "\<not> in_GLTFRenderMode (primitive_mode prim)"
  shows "load_primitive SL accs mats prim
         = Inl (Error (''Unsupported primitive mode '' @ Number_toString (primitive_mode prim)))"
  using assms by (simp add: load_primitive_def Let_def)

lemma load_primitive_json:
  assumes "load_primitive SL accs mats prim = Inr p"
  shows "p_json p = primitive_json prim" and "in_GLTFRenderMode (primitive_mode prim)"
  using assms
  by (auto simp add: load_primitive_def GLTFPrimitive_new_def Let_def
        split: if_splits option.splits sum.splits)

text \<open>What the loader reads of a primitive does not change when the unknown attributes go.\<close>

lemma known_only_members:
  "j_mode (known_only SL prim) = j_mode prim"
  "j_indices (known_only SL prim) = j_indices prim"
  "j_material (known_only SL prim) = j_material prim"
  "j_attributes (known_only SL prim)
   = map_option (filter (\<lambda>kv. SL (fst kv) \<noteq> None)) (j_attributes prim)"
proof -
  show "j_mode (known_only SL prim) = j_mode prim"
  proof (induction prim)
    case Nil
    then show ?case by (simp add: known_only_def)
  next
    case (Cons m ms)
    then show ?case by (cases m) (simp_all add: known_only_def)
  qed
  show "j_indices (known_only SL prim) = j_indices prim"
  proof (induction prim)
    case Nil
    then show ?case by (simp add: known_only_def)
  next
    case (Cons m ms)
    then show ?case by (cases m) (simp_all add: known_only_def)
  qed
  show "j_material (known_only SL prim) = j_material prim"
  proof (induction prim)
    case Nil
    then show ?case by (simp add: known_only_def)
  next
    case (Cons m ms)
    then show ?case by (cases m) (simp_all add: known_only_def)
  qed
  show "j_attributes (known_only SL prim)
        = map_option (filter (\<lambda>kv. SL (fst kv) \<noteq> None)) (j_attributes prim)"
  proof (induction prim)
    case Nil
    then show ?case by (simp add: known_only_def)
  next
    case (Cons m ms)
    then show ?case by (cases m) (simp_all add: known_only_def)
  qed
qed

lemma attribute_accessors_known:
  "attribute_accessors SL accs (filter (\<lambda>kv. SL (fst kv) \<noteq> None) attrs)
   = attribute_accessors SL accs attrs"
  by (induction attrs) (auto simp add: attribute_accessors_def split: option.splits)

lemma attribute_accessors_names:
  "map name (attribute_accessors SL accs attrs) = filter (\<lambda>k. SL k \<noteq> None) (map fst attrs)"
  by (induction attrs) (auto simp add: attribute_accessors_def split: option.splits)

lemma GLTFPrimitive_new_json:
  "GLTFPrimitive_new i t as m j'
   = map_sum id (\<lambda>p. p \<lparr> p_json := j' \<rparr>) (GLTFPrimitive_new i t as m j)"
  by (simp add: GLTFPrimitive_new_def split: sum.splits)

lemma load_known_only:
  "load_primitive SL accs mats (known_only SL prim)
   = map_sum id (\<lambda>p. p \<lparr> p_json := primitive_json (known_only SL prim) \<rparr>)
       (load_primitive SL accs mats prim)"
proof (cases "j_attributes prim")
  case None
  then show ?thesis
    by (simp add: load_primitive_def primitive_mode_def known_only_members Let_def)
next
  case (Some attrs)
  show ?thesis
    unfolding load_primitive_def primitive_mode_def known_only_members Some Let_def
    by (simp add: attribute_accessors_known
          GLTFPrimitive_new_json [of _ _ _ _ "primitive_json (known_only SL prim)" "primitive_json prim"]
          del: not_None_eq)
qed

text \<open>Without an attribute \<open>POSITION\<close> the vertex count stays 0.\<close>

lemma add_attribute_count:
  assumes "add_attribute aa st = Inr st'" and "name aa \<noteq> ''POSITION''"
  shows "fst st' = fst st"
  using assms
  by (auto simp add: add_attribute_def Let_def split: option.splits sum.splits if_splits)

lemma add_attributes_count:
  assumes "forEachE add_attribute as st = Inr st'" and "\<forall>a \<in> set as. name a \<noteq> ''POSITION''"
  shows "fst st' = fst st"
  using assms
proof (induction as arbitrary: st)
  case Nil
  then show ?case by simp
next
  case (Cons a as)
  from Cons.prems(1) obtain st1 where a: "add_attribute a st = Inr st1"
    and rest: "forEachE add_attribute as st1 = Inr st'"
    by (auto split: sum.splits)
  have "fst st1 = fst st"
    using add_attribute_count [OF a] Cons.prems(2) by simp
  moreover have "fst st' = fst st1"
    using Cons.IH [OF rest] Cons.prems(2) by simp
  ultimately show ?case by simp
qed

lemma sort_attributeAccessors_set:
  assumes "sort_attributeAccessors as = Inr ordered"
  shows "set ordered = set as"
  using assms by (auto simp add: sort_attributeAccessors_def split: if_splits)

lemma load_primitive_no_position:
  assumes "load_primitive SL accs mats prim = Inr p" and "j_attributes prim = Some attrs"
    and "''POSITION'' \<notin> fst ` set attrs"
  shows "vertexCount p = 0"
proof -
  let ?as = "attribute_accessors SL accs attrs"
  from assms(1,2) obtain r where r: "setPrimitive ?as = Inr r" and vc: "vertexCount p = fst (snd r)"
    by (auto simp add: load_primitive_def GLTFPrimitive_new_def Let_def
          split: if_splits sum.splits)
  from r obtain ordered st where o: "sort_attributeAccessors ?as = Inr ordered"
    and f: "forEachE add_attribute ordered (0, []) = Inr st" and rv: "fst (snd r) = fst st"
    by (auto simp add: setPrimitive_def split: sum.splits)
  have names: "set (map name ?as) \<subseteq> fst ` set attrs"
    unfolding attribute_accessors_names by auto
  have "\<forall>a \<in> set ?as. name a \<noteq> ''POSITION''"
  proof (intro ballI notI)
    fix a assume "a \<in> set ?as" and "name a = ''POSITION''"
    then have "''POSITION'' \<in> set (map name ?as)"
      by (metis image_eqI set_map)
    with names assms(3) show False
      by blast
  qed
  then have "\<forall>a \<in> set ordered. name a \<noteq> ''POSITION''"
    using sort_attributeAccessors_set [OF o] by simp
  from add_attributes_count [OF f this] show ?thesis
    using vc rv by simp
qed



text \<open>When the constructor returns.\<close>

lemma mapE_succeeds:
  "(\<exists>ys. mapE f xs = Inr ys) \<longleftrightarrow> (\<forall>x \<in> set xs. \<exists>y. f x = Inr y)"
  by (induction xs) (auto split: sum.splits)

lemma add_attribute_Inr_iff:
  "(\<exists>st'. add_attribute aa st = Inr st') \<longleftrightarrow> attribute_loads aa"
  by (auto simp add: add_attribute_def attribute_loads_def byteStride_def Let_def
        split: option.splits sum.splits)

lemma add_attributes_Inr_iff:
  "(\<exists>st'. forEachE add_attribute as st = Inr st') \<longleftrightarrow> list_all attribute_loads as"
proof (induction as arbitrary: st)
  case Nil
  then show ?case by simp
next
  case (Cons a as)
  show ?case
  proof (cases "add_attribute a st")
    case (Inl e)
    then have "\<not> attribute_loads a"
      using add_attribute_Inr_iff [of a st] by simp
    then show ?thesis
      using Inl by simp
  next
    case (Inr st1)
    then have "attribute_loads a"
      using add_attribute_Inr_iff [of a st] by auto
    then show ?thesis
      using Inr Cons.IH [of st1] by simp
  qed
qed

lemma setPrimitive_Inr_iff:
  "(\<exists>r. setPrimitive as = Inr r) \<longleftrightarrow> list_all attribute_loads as"
proof (cases "sort_attributeAccessors as")
  case (Inl e)
  then have "list_ex (\<lambda>a. a_accessor a = None) as"
    by (auto simp add: sort_attributeAccessors_def split: if_splits)
  then obtain a where "a \<in> set as" and "a_accessor a = None"
    by (auto simp add: list_ex_iff)
  then have "a \<in> set as" and "\<not> attribute_loads a"
    by (simp_all add: attribute_loads_def)
  then have "\<not> list_all attribute_loads as"
    by (auto simp add: list_all_iff)
  then show ?thesis
    using Inl by (simp add: setPrimitive_def)
next
  case (Inr ordered)
  have "list_all attribute_loads ordered \<longleftrightarrow> list_all attribute_loads as"
    using sort_attributeAccessors_set [OF Inr] by (simp add: list_all_iff)
  then show ?thesis
    using Inr add_attributes_Inr_iff [of ordered "(0, [])"]
    by (auto simp add: setPrimitive_def split: sum.splits)
qed

lemma load_primitive_Inr_iff:
  "(\<exists>p. load_primitive SL accs mats prim = Inr p) \<longleftrightarrow> primitive_loads SL accs prim"
proof (cases "j_attributes prim")
  case None
  then show ?thesis
    by (simp add: load_primitive_def primitive_loads_def Let_def)
next
  case (Some attrs)
  show ?thesis
    using setPrimitive_Inr_iff [of "attribute_accessors SL accs attrs"]
    by (auto simp add: load_primitive_def primitive_loads_def GLTFPrimitive_new_def Some Let_def
          split: option.splits sum.splits)
qed

lemma load_meshes_Inr_iff:
  "(\<exists>r. load_meshes SL accs mats meshes = Inr r)
   \<longleftrightarrow> (\<forall>m \<in> set meshes. \<forall>q \<in> set m. primitive_loads SL accs q)"
  unfolding load_meshes_def mapE_succeeds load_primitive_Inr_iff ..

lemma load_meshes_json:
  assumes "load_meshes SL accs mats meshes = Inr r"
  shows "map (map p_json) r = map (map primitive_json) meshes"
proof -
  have inner: "map p_json ps = map primitive_json m"
    if "mapE (load_primitive SL accs mats) m = Inr ps" for m ps
    using that
  proof (induction m arbitrary: ps)
    case Nil
    then show ?case by simp
  next
    case (Cons q m)
    then show ?case
      by (auto split: sum.splits dest: load_primitive_json(1))
  qed
  show ?thesis
    using assms unfolding load_meshes_def
  proof (induction meshes arbitrary: r)
    case Nil
    then show ?case by simp
  next
    case (Cons m meshes)
    then show ?case
      by (auto split: sum.splits dest: inner)
  qed
qed

lemma load_primitive_names:
  assumes "load_primitive SL accs mats prim = Inr p" and "j_attributes prim = Some attrs"
  shows "set (map name (attributeAccessors p)) = set (filter (\<lambda>k. SL k \<noteq> None) (map fst attrs))"
proof -
  let ?as = "attribute_accessors SL accs attrs"
  from assms obtain r where r: "setPrimitive ?as = Inr r" and aa: "attributeAccessors p = fst r"
    by (auto simp add: load_primitive_def GLTFPrimitive_new_def Let_def
          split: if_splits sum.splits)
  from r obtain ordered where o: "sort_attributeAccessors ?as = Inr ordered"
    and "fst r = ordered"
    by (auto simp add: setPrimitive_def split: sum.splits)
  then have "set (attributeAccessors p) = set ?as"
    using sort_attributeAccessors_set [OF o] aa by simp
  then have "set (map name (attributeAccessors p)) = set (map name ?as)"
    by simp
  then show ?thesis
    unfolding attribute_accessors_names .
qed

text \<open>
  C8 (as amended). A primitive with an unrecognised topology mode makes the loader throw
  \<open>Unsupported primitive mode\<close>, and no primitive is ever skipped: the load of the meshes
  fails exactly when one primitive of one mesh is not accepted, and a load that returns holds
  every primitive of every mesh. An attribute with an unrecognised name is no fault: the
  primitive loads, or fails, as it does without that attribute, only the JSON it keeps
  differs, and the attribute accessors of a loaded primitive are those of the recognised
  names. A missing \<open>POSITION\<close> is not fatal: a primitive is accepted exactly when its mode
  is recognised, its indices have a view and every attribute of recognised name has an
  accessor with a view and a vertex format, and a primitive loaded without \<open>POSITION\<close> has
  the vertex count 0.
\<close>

theorem load_meshes_faults:
  "(\<not> in_GLTFRenderMode (primitive_mode prim) \<longrightarrow>
      load_primitive SL accs mats prim
      = Inl (Error (''Unsupported primitive mode '' @ Number_toString (primitive_mode prim))))
   \<and> ((\<exists>e. load_meshes SL accs mats meshes = Inl e)
        \<longleftrightarrow> (\<exists>m \<in> set meshes. \<exists>q \<in> set m. \<not> primitive_loads SL accs q))
   \<and> (load_meshes SL accs mats meshes = Inr r \<longrightarrow>
        map (map p_json) r = map (map primitive_json) meshes)
   \<and> load_primitive SL accs mats (known_only SL prim)
     = map_sum id (\<lambda>p. p \<lparr> p_json := primitive_json (known_only SL prim) \<rparr>)
         (load_primitive SL accs mats prim)
   \<and> ((\<exists>p. load_primitive SL accs mats prim = Inr p) \<longleftrightarrow> primitive_loads SL accs prim)
   \<and> (load_primitive SL accs mats prim = Inr p \<and> j_attributes prim = Some attrs \<longrightarrow>
        set (map name (attributeAccessors p))
        = set (filter (\<lambda>k. SL k \<noteq> None) (map fst attrs))
        \<and> (''POSITION'' \<notin> fst ` set attrs \<longrightarrow> vertexCount p = 0))"
proof (intro conjI impI)
  assume "\<not> in_GLTFRenderMode (primitive_mode prim)"
  then show "load_primitive SL accs mats prim
      = Inl (Error (''Unsupported primitive mode '' @ Number_toString (primitive_mode prim)))"
    by (rule load_primitive_mode)
next
  have "(\<exists>e. load_meshes SL accs mats meshes = Inl e)
        \<longleftrightarrow> \<not> (\<exists>r. load_meshes SL accs mats meshes = Inr r)"
    by (cases "load_meshes SL accs mats meshes") simp_all
  then show "(\<exists>e. load_meshes SL accs mats meshes = Inl e)
        \<longleftrightarrow> (\<exists>m \<in> set meshes. \<exists>q \<in> set m. \<not> primitive_loads SL accs q)"
    unfolding load_meshes_Inr_iff by simp
next
  assume "load_meshes SL accs mats meshes = Inr r"
  then show "map (map p_json) r = map (map primitive_json) meshes"
    by (rule load_meshes_json)
next
  show "load_primitive SL accs mats (known_only SL prim)
     = map_sum id (\<lambda>p. p \<lparr> p_json := primitive_json (known_only SL prim) \<rparr>)
         (load_primitive SL accs mats prim)"
    by (rule load_known_only)
next
  show "(\<exists>p. load_primitive SL accs mats prim = Inr p) \<longleftrightarrow> primitive_loads SL accs prim"
    by (rule load_primitive_Inr_iff)
next
  assume "load_primitive SL accs mats prim = Inr p \<and> j_attributes prim = Some attrs"
  then show "set (map name (attributeAccessors p))
        = set (filter (\<lambda>k. SL k \<noteq> None) (map fst attrs))"
    using load_primitive_names by blast
next
  assume "load_primitive SL accs mats prim = Inr p \<and> j_attributes prim = Some attrs"
    and "''POSITION'' \<notin> fst ` set attrs"
  then show "vertexCount p = 0"
    using load_primitive_no_position by blast
qed

text \<open>
  A mesh whose first primitive has the unknown mode 9: the load fails with the error of that
  primitive. A primitive with the attributes \<open>NORMAL\<close> and \<open>_CUSTOM\<close>, both on the
  accessor of the example: it is accepted, it loads as the primitive without \<open>_CUSTOM\<close>
  does, with \<open>NORMAL\<close> as its only attribute accessor and the vertex count 0.
\<close>

theorem load_meshes_faults_witness:
  "\<not> in_GLTFRenderMode (primitive_mode [Mode 9, Attributes [(''POSITION'', 0)], Material 0])
   \<and> load_primitive ex_ShaderLocation [ex_accessor] [ex_material]
       [Mode 9, Attributes [(''POSITION'', 0)], Material 0]
     = Inl (Error ''Unsupported primitive mode 9'')
   \<and> (\<exists>e. load_meshes ex_ShaderLocation [ex_accessor] [ex_material]
             [[[Mode 9, Attributes [(''POSITION'', 0)], Material 0],
               [Attributes [(''POSITION'', 0)], Material 0]]] = Inl e)
   \<and> primitive_loads ex_ShaderLocation [ex_accessor]
       [Attributes [(''NORMAL'', 0), (''_CUSTOM'', 0)]]
   \<and> (\<exists>p. load_meshes ex_ShaderLocation [ex_accessor] [ex_material]
             [[[Attributes [(''NORMAL'', 0), (''_CUSTOM'', 0)]]]] = Inr [[p]]
          \<and> p_json p = JObj [(''attributes'', JObj [(''NORMAL'', JNum 0), (''_CUSTOM'', JNum 0)])]
          \<and> set (map name (attributeAccessors p)) = {''NORMAL''}
          \<and> vertexCount p = 0
          \<and> load_primitive ex_ShaderLocation [ex_accessor] [ex_material]
               [Attributes [(''NORMAL'', 0)]]
             = Inr (p \<lparr> p_json := JObj [(''attributes'', JObj [(''NORMAL'', JNum 0)])] \<rparr>))"
proof -
  let ?bad = "[Mode 9, Attributes [(''POSITION'', 0)], Material 0]"
  let ?good = "[Attributes [(''POSITION'', 0)], Material 0]"
  let ?prim = "[Attributes [(''NORMAL'', 0), (''_CUSTOM'', 0)]]"
  let ?load = "load_primitive ex_ShaderLocation [ex_accessor] [ex_material]"
  let ?loads = "load_meshes ex_ShaderLocation [ex_accessor] [ex_material]"
  have mode: "\<not> in_GLTFRenderMode (primitive_mode ?bad)"
    by (simp add: primitive_mode_def in_GLTFRenderMode_def)
  have rejected: "\<not> primitive_loads ex_ShaderLocation [ex_accessor] ?bad"
    by (simp add: primitive_loads_def primitive_mode_def in_GLTFRenderMode_def)
  have accepted: "primitive_loads ex_ShaderLocation [ex_accessor] ?prim"
    by (simp add: primitive_loads_def attribute_loads_def load_defs eval_defs)
  have known: "known_only ex_ShaderLocation ?prim = [Attributes [(''NORMAL'', 0)]]"
    by (simp add: known_only_def ex_ShaderLocation_def)
  have attrs: "j_attributes ?prim = Some [(''NORMAL'', 0), (''_CUSTOM'', 0)]"
    by simp
  have "?load ?bad = Inl (Error (''Unsupported primitive mode '' @ Number_toString (primitive_mode ?bad)))"
    using load_meshes_faults [of ?bad ex_ShaderLocation "[ex_accessor]" "[ex_material]"] mode
    by blast
  then have thrown: "?load ?bad = Inl (Error ''Unsupported primitive mode 9'')"
    by (simp add: primitive_mode_def Number_toString_def nat_digits.simps)
  have aborted: "\<exists>e. ?loads [[?bad, ?good]] = Inl e"
    using load_meshes_faults [of ?bad ex_ShaderLocation "[ex_accessor]" "[ex_material]"
            "[[?bad, ?good]]"] rejected
    by simp
  from load_meshes_faults [of ?prim ex_ShaderLocation "[ex_accessor]" "[ex_material]"] accepted
  obtain p where p: "?load ?prim = Inr p"
    by blast
  then have loaded: "?loads [[?prim]] = Inr [[p]]"
    by (simp add: load_meshes_def)
  from load_meshes_faults [of ?prim ex_ShaderLocation "[ex_accessor]" "[ex_material]" "[[?prim]]"
         "[[p]]" p "[(''NORMAL'', 0), (''_CUSTOM'', 0)]"] loaded p attrs
  have json: "map (map p_json) [[p]] = map (map primitive_json) [[?prim]]"
    and names: "set (map name (attributeAccessors p))
                = set (filter (\<lambda>k. ex_ShaderLocation k \<noteq> None)
                        (map fst [(''NORMAL'', 0 :: nat), (''_CUSTOM'', 0)]))"
    and position: "''POSITION'' \<notin> fst ` set [(''NORMAL'', 0 :: nat), (''_CUSTOM'', 0)]
                   \<longrightarrow> vertexCount p = 0"
    and without: "?load (known_only ex_ShaderLocation ?prim)
                  = map_sum id (\<lambda>p. p \<lparr> p_json := primitive_json (known_only ex_ShaderLocation ?prim) \<rparr>)
                      (?load ?prim)"
    by blast+
  have c1: "p_json p = JObj [(''attributes'', JObj [(''NORMAL'', JNum 0), (''_CUSTOM'', JNum 0)])]"
    using json by (simp add: primitive_json_def)
  have c2: "set (map name (attributeAccessors p)) = {''NORMAL''}"
    using names by (simp add: ex_ShaderLocation_def)
  have c3: "vertexCount p = 0"
    using position by simp
  have c4: "?load [Attributes [(''NORMAL'', 0)]]
            = Inr (p \<lparr> p_json := JObj [(''attributes'', JObj [(''NORMAL'', JNum 0)])] \<rparr>)"
    using without unfolding known p by (simp add: primitive_json_def)
  have "\<exists>p. ?loads [[?prim]] = Inr [[p]]
          \<and> p_json p = JObj [(''attributes'', JObj [(''NORMAL'', JNum 0), (''_CUSTOM'', JNum 0)])]
          \<and> set (map name (attributeAccessors p)) = {''NORMAL''}
          \<and> vertexCount p = 0
          \<and> ?load [Attributes [(''NORMAL'', 0)]]
             = Inr (p \<lparr> p_json := JObj [(''attributes'', JObj [(''NORMAL'', JNum 0)])] \<rparr>)"
    apply (rule exI [of _ p])
    by (intro conjI loaded c1 c2 c3 c4)
  with mode thrown aborted accepted show ?thesis
    by (intro conjI)
qed

text \<open>
  C8 as the specification states it fails. A mesh whose first primitive has the unknown
  mode 9 ends the load with an error although its second primitive, which alone loads as
  the example primitive, is well-formed: the primitive is not skipped. A primitive with the
  attribute \<open>_CUSTOM\<close> of unknown name is loaded without that attribute and without any
  fault. A primitive without \<open>POSITION\<close> is loaded, with the vertex count 0.
\<close>

theorem load_meshes_counterexample:
  "load_meshes ex_ShaderLocation [ex_accessor] [ex_material]
     [[[Mode 9, Attributes [(''POSITION'', 0)], Material 0],
       [Attributes [(''POSITION'', 0)], Material 0]]]
   = Inl (Error ''Unsupported primitive mode 9'')
   \<and> load_meshes ex_ShaderLocation [ex_accessor] [ex_material]
       [[[Attributes [(''POSITION'', 0)], Material 0]]]
     = Inr [[ex_primitive 0]]
   \<and> load_meshes ex_ShaderLocation [ex_accessor] [ex_material]
       [[[Attributes [(''POSITION'', 0), (''_CUSTOM'', 0)], Material 0]]]
     = Inr [[(ex_primitive 0)
               \<lparr> p_json := JObj [(''attributes'',
                                   JObj [(''POSITION'', JNum 0), (''_CUSTOM'', JNum 0)]),
                                  (''material'', JNum 0)] \<rparr>]]
   \<and> load_meshes ex_ShaderLocation [ex_accessor] [ex_material]
       [[[Attributes [(''NORMAL'', 0)]]]]
     = Inr [[\<lparr> p_json = JObj [(''attributes'', JObj [(''NORMAL'', JNum 0)])],
                a_indices = None, topology = 4,
                attributeAccessors = [\<lparr> name = ''NORMAL'', shaderLocation = 1,
                                         a_accessor = Some ex_accessor \<rparr>],
                a_material = None, vertexCount = 0,
                bufferLayout = [\<lparr> arrayStride = Some 12,
                                   attributes = [\<lparr> v_shaderLocation = 1,
                                                    v_format = ''float32x3'',
                                                    v_offset = 0 \<rparr>] \<rparr>],
                gpuBuffers = [\<lparr> accessor = ex_accessor, buf_offset = 0 \<rparr>] \<rparr>]]"
  by (simp add: load_defs eval_defs)

end
